theory Spec2Isabelle
  imports Main "HOL-Library.Multiset"
begin

section \<open>Data model (backend/api/models.py)\<close>

text \<open>
  Every Django model the core needs is a record; a table is the list of its rows in
  insertion order. Primary keys of users, tags, recipes and ingredients are natural
  numbers. The auto-generated ids of the join and membership rows are never read by the
  code and are left out, as is \<open>Recipe.pub_date\<close>.
\<close>

record ingredient =
  ingredient_pk :: nat
  ingredient_name :: string
  measurement_unit :: string

text \<open>A \<open>Recipe\<close> instance; \<open>pk\<close> is \<open>None\<close> until the first save.\<close>

record recipe =
  pk :: "nat option"
  recipe_name :: string
  recipe_text :: string
  cooking_time :: int
  image :: string
  author :: nat
  short_link :: string

record recipe_ingredient =
  ri_recipe :: nat
  ri_ingredient :: nat
  amount :: int

record subscription =
  sub_author :: nat
  sub_subscriber :: nat

record favorite =
  fav_user :: nat
  fav_recipe :: nat

record shopping_cart_row =
  cart_user :: nat
  cart_recipe :: nat

record store =
  users :: "nat list"
  ingredients :: "ingredient list"
  recipes :: "recipe list"
  recipe_tags :: "(nat \<times> nat) list"
  recipe_ingredients :: "recipe_ingredient list"
  subscriptions :: "subscription list"
  favorites :: "favorite list"
  shopping_cart :: "shopping_cart_row list"
  next_recipe_pk :: nat

definition empty_store :: store where
  "empty_store = \<lparr>users = [], ingredients = [], recipes = [], recipe_tags = [],
     recipe_ingredients = [], subscriptions = [], favorites = [], shopping_cart = [],
     next_recipe_pk = 1\<rparr>"

section \<open>Exceptions and responses\<close>

text \<open>
  The messages of the \<open>ValidationError\<close>s raised by the serializers and views (Russian
  literals in the source), one constructor per raise site.
\<close>

datatype detail =
    Auth_required
  | Self_subscribe
  | Already_subscribed
  | Already_in_shopping_cart
  | Already_in_favorites
  | Not_subscribed
  | Not_in_shopping_cart
  | Not_in_favorites
  | Ingredients_required
  | Ingredients_repeated
  | Tags_required
  | Tags_repeated

text \<open>
  The exceptions of the modelled code. \<open>ValueError\<close> is the one \<open>get_short_link\<close>
  raises when its attempts are used up; \<open>Unsaved_instance\<close> is the error of using an
  instance without primary key as a relation target; \<open>IntegrityError\<close> carries the
  name of the violated database constraint.
\<close>

datatype exn =
    ValueError
  | Unsaved_instance
  | Http404
  | MultipleObjectsReturned
  | IntegrityError string
  | ValidationError detail

datatype message = Cart_is_empty | Shopping_list_failed | Redirect_failed

datatype payload =
    No_content
  | Error_detail exn
  | Error_message message
  | Recipe_data nat
  | User_data nat

text \<open>
  One cell of the CSV report. The three header cells are the literals
  of the \<open>writer.writerow\<close> call that writes the header.
\<close>

datatype cell = Header_ingredient | Header_amount | Header_unit | Text string | Number int

datatype response =
    Response nat payload
  | HttpResponse "cell list list"
  | HttpResponseRedirect string

fun status_code :: "response \<Rightarrow> nat" where
  "status_code (Response s p) = s"
| "status_code (HttpResponse rows) = 200"
| "status_code (HttpResponseRedirect url) = 302"

definition is_client_error :: "response \<Rightarrow> bool" where
  "is_client_error r = (400 \<le> status_code r \<and> status_code r < 500)"

definition is_server_error :: "response \<Rightarrow> bool" where
  "is_server_error r = (500 \<le> status_code r \<and> status_code r < 600)"

text \<open>
  What the REST framework makes of an exception that leaves a view: \<open>Http404\<close> becomes
  a 404, a \<open>ValidationError\<close> a 400, and anything else is not handled and ends as a
  500.
\<close>

fun handle_exception :: "exn \<Rightarrow> response" where
  "handle_exception Http404 = Response 404 (Error_detail Http404)"
| "handle_exception (ValidationError d) = Response 400 (Error_detail (ValidationError d))"
| "handle_exception e = Response 500 (Error_detail e)"

definition dispatch :: "(exn + response) \<times> store \<Rightarrow> response \<times> store" where
  "dispatch r = (case fst r of Inl e \<Rightarrow> (handle_exception e, snd r)
                              | Inr resp \<Rightarrow> (resp, snd r))"

section \<open>Short links (Recipe.get_short_link, Recipe.save)\<close>

text \<open>
  \<open>get_random_string\<close> is modelled by a random source: \<open>rnd k len\<close> is the string the
  \<open>k\<close>-th call returns when asked for length \<open>len\<close>. The functions that draw take the
  number of calls made so far and return the number made after them.
\<close>

type_synonym random_source = "nat \<Rightarrow> int \<Rightarrow> string"

definition short_link_exists :: "store \<Rightarrow> string \<Rightarrow> bool" where
  "short_link_exists st sl = list_ex (\<lambda>r. short_link r = sl) (recipes st)"

text \<open>
  The \<open>for ... else\<close> loop: \<open>n\<close> iterations are left and \<open>k\<close> draws were made. \<open>None\<close>
  is the exhausted loop (the \<open>else\<close> branch), \<open>Some sl\<close> the \<open>break\<close>.
\<close>

fun draw_loop :: "store \<Rightarrow> random_source \<Rightarrow> int \<Rightarrow> nat \<Rightarrow> nat \<Rightarrow> string option \<times> nat" where
  "draw_loop st rnd len 0 k = (None, k)"
| "draw_loop st rnd len (Suc n) k =
     (if \<not> short_link_exists st (rnd k len) then (Some (rnd k len), Suc k)
      else draw_loop st rnd len n (Suc k))"

text \<open>\<open>range(attempt)\<close> is empty for a non-positive \<open>attempt\<close>, hence \<open>nat attempt\<close>.\<close>

definition get_short_link ::
  "store \<Rightarrow> random_source \<Rightarrow> nat \<Rightarrow> recipe \<Rightarrow> int \<Rightarrow> int \<Rightarrow> (exn + recipe) \<times> nat" where
  "get_short_link st rnd k self len attempt =
     (case draw_loop st rnd len (nat attempt) k of
        (None, k') \<Rightarrow> (Inl ValueError, k')
      | (Some sl, k') \<Rightarrow> (Inr (self\<lparr>short_link := sl\<rparr>), k'))"

text \<open>
  \<open>Model.save\<close> for a recipe: an instance without a primary key, or whose key has no
  row, is inserted; otherwise its row is replaced. \<open>short_link\<close> is \<open>unique=True\<close>.
\<close>

definition has_pk :: "nat \<Rightarrow> recipe \<Rightarrow> bool" where
  "has_pk i r = (pk r = Some i)"

definition insert_recipe :: "store \<Rightarrow> recipe \<Rightarrow> (exn + recipe) \<times> store" where
  "insert_recipe st r =
     (if short_link_exists st (short_link r) then (Inl (IntegrityError ''short_link''), st)
      else (Inr r, st\<lparr>recipes := recipes st @ [r]\<rparr>))"

definition Model_save :: "store \<Rightarrow> recipe \<Rightarrow> (exn + recipe) \<times> store" where
  "Model_save st self =
     (case pk self of
        None \<Rightarrow>
          insert_recipe (st\<lparr>next_recipe_pk := Suc (next_recipe_pk st)\<rparr>)
            (self\<lparr>pk := Some (next_recipe_pk st)\<rparr>)
      | Some i \<Rightarrow>
          if list_ex (has_pk i) (recipes st) then
            (if list_ex (\<lambda>r. short_link r = short_link self \<and> \<not> has_pk i r) (recipes st)
             then (Inl (IntegrityError ''short_link''), st)
             else (Inr self,
                   st\<lparr>recipes := map (\<lambda>r. if has_pk i r then self else r) (recipes st)\<rparr>))
          else insert_recipe st self)"

definition save ::
  "store \<Rightarrow> random_source \<Rightarrow> nat \<Rightarrow> recipe \<Rightarrow> (exn + recipe) \<times> store \<times> nat" where
  "save st rnd k self =
     (if short_link self = [] then
        (case get_short_link st rnd k self 10 10 of
           (Inl e, k') \<Rightarrow> (Inl e, st, k')
         | (Inr self', k') \<Rightarrow> (fst (Model_save st self'), snd (Model_save st self'), k'))
      else (fst (Model_save st self), snd (Model_save st self), k))"

section \<open>Recipe creation and update (RecipeCreateSerializer)\<close>

text \<open>
  \<open>RecipeIngredient.objects.create\<close>: the row is inserted unless the foreign key to
  \<open>Ingredient\<close> or the constraint \<open>unique_recipe_ingredient\<close> rejects it. Every call
  of the object manager writes at once: the serializer opens no transaction.
\<close>

definition RecipeIngredient_objects_create ::
  "store \<Rightarrow> recipe_ingredient \<Rightarrow> (exn + recipe_ingredient) \<times> store" where
  "RecipeIngredient_objects_create st row =
     (if \<not> list_ex (\<lambda>i. ingredient_pk i = ri_ingredient row) (ingredients st)
      then (Inl (IntegrityError ''ingredient_id''), st)
      else if list_ex (\<lambda>x. ri_recipe x = ri_recipe row \<and> ri_ingredient x = ri_ingredient row)
                (recipe_ingredients st)
      then (Inl (IntegrityError ''unique_recipe_ingredient''), st)
      else (Inr row, st\<lparr>recipe_ingredients := recipe_ingredients st @ [row]\<rparr>))"

text \<open>\<open>_add_ingredients\<close>: one insert per entry; the first exception ends the loop.\<close>

definition ingredient_row :: "nat \<Rightarrow> nat \<times> int \<Rightarrow> recipe_ingredient" where
  "ingredient_row rid x = \<lparr>ri_recipe = rid, ri_ingredient = fst x, amount = snd x\<rparr>"

fun add_ingredients :: "store \<Rightarrow> nat \<Rightarrow> (nat \<times> int) list \<Rightarrow> (exn + unit) \<times> store" where
  "add_ingredients st rid [] = (Inr (), st)"
| "add_ingredients st rid (x # xs) =
     (case RecipeIngredient_objects_create st (ingredient_row rid x) of
        (Inl e, st') \<Rightarrow> (Inl e, st')
      | (Inr row, st') \<Rightarrow> add_ingredients st' rid xs)"

text \<open>
  \<open>recipe.tags.set(tags)\<close>: the rows of the recipe whose tag is not in \<open>tags\<close> are
  removed and the tags it does not have yet are added.
\<close>

definition tags_set :: "store \<Rightarrow> nat \<Rightarrow> nat list \<Rightarrow> store" where
  "tags_set st rid ts =
     st\<lparr>recipe_tags :=
          filter (\<lambda>rt. \<not> (fst rt = rid \<and> snd rt \<notin> set ts)) (recipe_tags st)
          @ map (Pair rid) (filter (\<lambda>t. (rid, t) \<notin> set (recipe_tags st)) (remdups ts))\<rparr>"

text \<open>The validated data of a creation request: every field is required.\<close>

record recipe_data =
  rd_name :: string
  rd_text :: string
  rd_cooking_time :: int
  rd_image :: string
  rd_ingredients :: "(nat \<times> int) list"
  rd_tags :: "nat list"

text \<open>
  \<open>Recipe.objects.create(**kwargs)\<close> builds the instance from the remaining fields
  and the author (no primary key and no short link yet) and saves it.
\<close>

definition new_recipe :: "nat \<Rightarrow> recipe_data \<Rightarrow> recipe" where
  "new_recipe request_user validated_data =
     \<lparr>pk = None, recipe_name = rd_name validated_data,
      recipe_text = rd_text validated_data,
      cooking_time = rd_cooking_time validated_data,
      image = rd_image validated_data, author = request_user, short_link = []\<rparr>"

definition Recipe_objects_create ::
  "store \<Rightarrow> random_source \<Rightarrow> nat \<Rightarrow> recipe \<Rightarrow> (exn + recipe) \<times> store \<times> nat" where
  "Recipe_objects_create st rnd k r = save st rnd k r"

definition create ::
  "store \<Rightarrow> random_source \<Rightarrow> nat \<Rightarrow> nat \<Rightarrow> recipe_data \<Rightarrow> (exn + recipe) \<times> store \<times> nat" where
  "create st rnd k request_user validated_data =
     (case Recipe_objects_create st rnd k (new_recipe request_user validated_data) of
        (Inl e, st1, k1) \<Rightarrow> (Inl e, st1, k1)
      | (Inr recipe, st1, k1) \<Rightarrow>
          (case pk recipe of
             None \<Rightarrow> (Inl Unsaved_instance, st1, k1)
           | Some rid \<Rightarrow>
               (case add_ingredients (tags_set st1 rid (rd_tags validated_data)) rid
                       (rd_ingredients validated_data) of
                  (Inl e, st3) \<Rightarrow> (Inl e, st3, k1)
                | (Inr u, st3) \<Rightarrow> (Inr recipe, st3, k1))))"

text \<open>
  The validated data of an update: the view accepts PATCH only, so every field may be
  absent (\<open>None\<close>).
\<close>

record recipe_patch =
  p_name :: "string option"
  p_text :: "string option"
  p_cooking_time :: "int option"
  p_image :: "string option"
  p_ingredients :: "(nat \<times> int) list option"
  p_tags :: "nat list option"

definition set_attrs :: "recipe \<Rightarrow> recipe_patch \<Rightarrow> recipe" where
  "set_attrs r p =
     r\<lparr>recipe_name := (case p_name p of None \<Rightarrow> recipe_name r | Some v \<Rightarrow> v),
       recipe_text := (case p_text p of None \<Rightarrow> recipe_text r | Some v \<Rightarrow> v),
       cooking_time := (case p_cooking_time p of None \<Rightarrow> cooking_time r | Some v \<Rightarrow> v),
       image := (case p_image p of None \<Rightarrow> image r | Some v \<Rightarrow> v)\<rparr>"

text \<open>\<open>super().update\<close>: the remaining attributes are set and the instance saved.\<close>

definition ModelSerializer_update ::
  "store \<Rightarrow> random_source \<Rightarrow> nat \<Rightarrow> recipe \<Rightarrow> recipe_patch \<Rightarrow> (exn + recipe) \<times> store \<times> nat" where
  "ModelSerializer_update st rnd k instance p = save st rnd k (set_attrs instance p)"

definition delete_ingredient_in_recipe :: "store \<Rightarrow> nat \<Rightarrow> store" where
  "delete_ingredient_in_recipe st rid =
     st\<lparr>recipe_ingredients := filter (\<lambda>x. ri_recipe x \<noteq> rid) (recipe_ingredients st)\<rparr>"

definition update ::
  "store \<Rightarrow> random_source \<Rightarrow> nat \<Rightarrow> recipe \<Rightarrow> recipe_patch \<Rightarrow> (exn + recipe) \<times> store \<times> nat" where
  "update st rnd k recipe validated_data =
     (case ModelSerializer_update st rnd k recipe validated_data of
        (Inl e, st1, k1) \<Rightarrow> (Inl e, st1, k1)
      | (Inr recipe', st1, k1) \<Rightarrow>
          (case pk recipe' of
             None \<Rightarrow> (Inl Unsaved_instance, st1, k1)
           | Some rid \<Rightarrow>
               (let st2 = (case p_tags validated_data of
                             None \<Rightarrow> st1 | Some ts \<Rightarrow> tags_set st1 rid ts)
                in case p_ingredients validated_data of
                     None \<Rightarrow> (Inr recipe', st2, k1)
                   | Some ings \<Rightarrow>
                       (case add_ingredients (delete_ingredient_in_recipe st2 rid) rid ings of
                          (Inl e, st4) \<Rightarrow> (Inl e, st4, k1)
                        | (Inr u, st4) \<Rightarrow> (Inr recipe', st4, k1)))))"

text \<open>
  \<open>validate\<close> and its two checks, which the serializer runs on the data of every
  request before \<open>create\<close> or \<open>update\<close>. \<open>data.get\<close> gives \<open>None\<close> for an omitted
  key, and \<open>not ingredients\<close> holds of \<open>None\<close> and of the empty list alike. The loop of
  \<open>_check_ingredients\<close> carries the set of the ingredient ids seen so far.
\<close>

fun seen_loop :: "nat set \<Rightarrow> (nat \<times> int) list \<Rightarrow> exn + unit" where
  "seen_loop seen_ingredients [] = Inr ()"
| "seen_loop seen_ingredients (item # items) =
     (if fst item \<in> seen_ingredients then Inl (ValidationError Ingredients_repeated)
      else seen_loop (insert (fst item) seen_ingredients) items)"

definition check_ingredients :: "(nat \<times> int) list option \<Rightarrow> exn + unit" where
  "check_ingredients given =
     (case given of
        None \<Rightarrow> Inl (ValidationError Ingredients_required)
      | Some items \<Rightarrow>
          if items = [] then Inl (ValidationError Ingredients_required)
          else seen_loop {} items)"

definition check_tags :: "nat list option \<Rightarrow> exn + unit" where
  "check_tags given =
     (case given of
        None \<Rightarrow> Inl (ValidationError Tags_required)
      | Some ts \<Rightarrow>
          if ts = [] then Inl (ValidationError Tags_required)
          else if length ts \<noteq> card (set ts) then Inl (ValidationError Tags_repeated)
          else Inr ())"

definition validate :: "recipe_patch \<Rightarrow> exn + recipe_patch" where
  "validate data =
     (case check_ingredients (p_ingredients data) of
        Inl e \<Rightarrow> Inl e
      | Inr u \<Rightarrow>
          (case check_tags (p_tags data) of
             Inl e \<Rightarrow> Inl e
           | Inr v \<Rightarrow> Inr data))"

text \<open>
  The instance an update starts from is a recipe the view loaded from the store: it
  has a primary key and a row with that key, its short link is not empty, and no
  other row has the same short link.
\<close>

definition persisted :: "store \<Rightarrow> recipe \<Rightarrow> nat \<Rightarrow> bool" where
  "persisted st recipe rid =
     (pk recipe = Some rid \<and> short_link recipe \<noteq> [] \<and> list_ex (has_pk rid) (recipes st)
      \<and> \<not> list_ex (\<lambda>r. short_link r = short_link recipe \<and> \<not> has_pk rid r) (recipes st))"

text \<open>Every entry of an ingredient list names an ingredient that has a row.\<close>

definition ingredients_exist :: "store \<Rightarrow> (nat \<times> int) list \<Rightarrow> bool" where
  "ingredients_exist st items =
     list_all (\<lambda>x. list_ex (\<lambda>i. ingredient_pk i = fst x) (ingredients st)) items"

section \<open>Membership relations (serializers and views)\<close>

text \<open>
  \<open>get_object_or_404\<close> over the rows a filter selected: no row is \<open>Http404\<close>, and more
  than one row is the \<open>MultipleObjectsReturned\<close> of \<open>get\<close>.
\<close>

fun get_object_or_404 :: "'a list \<Rightarrow> exn + 'a" where
  "get_object_or_404 [] = Inl Http404"
| "get_object_or_404 [x] = Inr x"
| "get_object_or_404 (x # y # zs) = Inl MultipleObjectsReturned"

definition get_user_or_404 :: "store \<Rightarrow> nat \<Rightarrow> exn + nat" where
  "get_user_or_404 st i = get_object_or_404 (filter (\<lambda>u. u = i) (users st))"

definition get_recipe_or_404 :: "store \<Rightarrow> nat \<Rightarrow> exn + recipe" where
  "get_recipe_or_404 st i = get_object_or_404 (filter (has_pk i) (recipes st))"

subsection \<open>Subscription\<close>

text \<open>
  The insert of a \<open>Subscription\<close> row under the two constraints of its \<open>Meta\<close>: the
  check constraint \<open>self_subscribe\<close> and the unique constraint \<open>unique_subscription\<close>.
\<close>

definition is_subscribed :: "store \<Rightarrow> nat \<Rightarrow> nat \<Rightarrow> bool" where
  "is_subscribed st a s =
     list_ex (\<lambda>x. sub_author x = a \<and> sub_subscriber x = s) (subscriptions st)"

definition Subscription_objects_create ::
  "store \<Rightarrow> subscription \<Rightarrow> (exn + subscription) \<times> store" where
  "Subscription_objects_create st row =
     (if sub_author row = sub_subscriber row then (Inl (IntegrityError ''self_subscribe''), st)
      else if is_subscribed st (sub_author row) (sub_subscriber row)
      then (Inl (IntegrityError ''unique_subscription''), st)
      else (Inr row, st\<lparr>subscriptions := subscriptions st @ [row]\<rparr>))"

text \<open>
  \<open>SubscriptionSerializer.validate\<close>; \<open>request_user\<close> is \<open>None\<close> when there is no
  request or its user is not authenticated.
\<close>

definition SubscriptionSerializer_validate ::
  "store \<Rightarrow> nat option \<Rightarrow> nat \<Rightarrow> exn + subscription" where
  "SubscriptionSerializer_validate st request_user author_id =
     (case request_user of
        None \<Rightarrow> Inl (ValidationError Auth_required)
      | Some subscriber \<Rightarrow>
          if subscriber = author_id then Inl (ValidationError Self_subscribe)
          else if is_subscribed st author_id subscriber
          then Inl (ValidationError Already_subscribed)
          else Inr \<lparr>sub_author = author_id, sub_subscriber = subscriber\<rparr>)"

text \<open>
  The views run behind \<open>IsAuthenticated\<close>: \<open>user\<close> is the authenticated user of the
  request.
\<close>

definition subscribe :: "store \<Rightarrow> nat \<Rightarrow> nat \<Rightarrow> response \<times> store" where
  "subscribe st user i =
     dispatch
       (case get_user_or_404 st i of
          Inl e \<Rightarrow> (Inl e, st)
        | Inr a \<Rightarrow>
            (case SubscriptionSerializer_validate st (Some user) a of
               Inl e \<Rightarrow> (Inl e, st)
             | Inr data \<Rightarrow>
                 (case Subscription_objects_create st data of
                    (Inl e, st') \<Rightarrow> (Inl e, st')
                  | (Inr row, st') \<Rightarrow> (Inr (Response 201 (User_data (sub_author row))), st'))))"

definition unsubscribe :: "store \<Rightarrow> nat \<Rightarrow> nat \<Rightarrow> response \<times> store" where
  "unsubscribe st user i =
     dispatch
       (case get_user_or_404 st i of
          Inl e \<Rightarrow> (Inl e, st)
        | Inr a \<Rightarrow>
            (let delete_count =
                   length (filter (\<lambda>x. sub_author x = a \<and> sub_subscriber x = user)
                             (subscriptions st));
                 st' = st\<lparr>subscriptions :=
                            filter (\<lambda>x. \<not> (sub_author x = a \<and> sub_subscriber x = user))
                              (subscriptions st)\<rparr>
             in if delete_count = 0 then (Inl (ValidationError Not_subscribed), st')
                else (Inr (Response 204 No_content), st')))"

subsection \<open>Favorite\<close>

definition is_favorited :: "store \<Rightarrow> nat \<Rightarrow> nat \<Rightarrow> bool" where
  "is_favorited st u r = list_ex (\<lambda>x. fav_user x = u \<and> fav_recipe x = r) (favorites st)"

definition Favorite_objects_create :: "store \<Rightarrow> favorite \<Rightarrow> (exn + favorite) \<times> store" where
  "Favorite_objects_create st row =
     (if is_favorited st (fav_user row) (fav_recipe row)
      then (Inl (IntegrityError ''unique_favorite''), st)
      else (Inr row, st\<lparr>favorites := favorites st @ [row]\<rparr>))"

definition FavoriteSerializer_validate :: "store \<Rightarrow> nat option \<Rightarrow> nat \<Rightarrow> exn + favorite" where
  "FavoriteSerializer_validate st request_user recipe_id =
     (case request_user of
        None \<Rightarrow> Inl (ValidationError Auth_required)
      | Some user \<Rightarrow>
          if is_favorited st user recipe_id then Inl (ValidationError Already_in_favorites)
          else Inr \<lparr>fav_user = user, fav_recipe = recipe_id\<rparr>)"

definition favorite :: "store \<Rightarrow> nat \<Rightarrow> nat \<Rightarrow> response \<times> store" where
  "favorite st user i =
     dispatch
       (case get_recipe_or_404 st i of
          Inl e \<Rightarrow> (Inl e, st)
        | Inr recipe \<Rightarrow>
            (case FavoriteSerializer_validate st (Some user) i of
               Inl e \<Rightarrow> (Inl e, st)
             | Inr data \<Rightarrow>
                 (case Favorite_objects_create st data of
                    (Inl e, st') \<Rightarrow> (Inl e, st')
                  | (Inr row, st') \<Rightarrow> (Inr (Response 201 (Recipe_data (fav_recipe row))), st'))))"

definition delete_from_favorites :: "store \<Rightarrow> nat \<Rightarrow> nat \<Rightarrow> response \<times> store" where
  "delete_from_favorites st user i =
     dispatch
       (case get_recipe_or_404 st i of
          Inl e \<Rightarrow> (Inl e, st)
        | Inr recipe \<Rightarrow>
            (let delete_count =
                   length (filter (\<lambda>x. fav_user x = user \<and> fav_recipe x = i) (favorites st));
                 st' = st\<lparr>favorites :=
                            filter (\<lambda>x. \<not> (fav_user x = user \<and> fav_recipe x = i))
                              (favorites st)\<rparr>
             in if delete_count = 0 then (Inl (ValidationError Not_in_favorites), st')
                else (Inr (Response 204 No_content), st')))"

subsection \<open>ShoppingCart\<close>

definition is_in_shopping_cart :: "store \<Rightarrow> nat \<Rightarrow> nat \<Rightarrow> bool" where
  "is_in_shopping_cart st u r =
     list_ex (\<lambda>x. cart_user x = u \<and> cart_recipe x = r) (shopping_cart st)"

definition ShoppingCart_objects_create ::
  "store \<Rightarrow> shopping_cart_row \<Rightarrow> (exn + shopping_cart_row) \<times> store" where
  "ShoppingCart_objects_create st row =
     (if is_in_shopping_cart st (cart_user row) (cart_recipe row)
      then (Inl (IntegrityError ''unique_shopping_cart_list''), st)
      else (Inr row, st\<lparr>shopping_cart := shopping_cart st @ [row]\<rparr>))"

definition ShoppingCartSerializer_validate ::
  "store \<Rightarrow> nat option \<Rightarrow> nat \<Rightarrow> exn + shopping_cart_row" where
  "ShoppingCartSerializer_validate st request_user recipe_id =
     (case request_user of
        None \<Rightarrow> Inl (ValidationError Auth_required)
      | Some user \<Rightarrow>
          if is_in_shopping_cart st user recipe_id
          then Inl (ValidationError Already_in_shopping_cart)
          else Inr \<lparr>cart_user = user, cart_recipe = recipe_id\<rparr>)"

definition add_to_shopping_cart :: "store \<Rightarrow> nat \<Rightarrow> nat \<Rightarrow> response \<times> store" where
  "add_to_shopping_cart st user i =
     dispatch
       (case get_recipe_or_404 st i of
          Inl e \<Rightarrow> (Inl e, st)
        | Inr recipe \<Rightarrow>
            (case ShoppingCartSerializer_validate st (Some user) i of
               Inl e \<Rightarrow> (Inl e, st)
             | Inr data \<Rightarrow>
                 (case ShoppingCart_objects_create st data of
                    (Inl e, st') \<Rightarrow> (Inl e, st')
                  | (Inr row, st') \<Rightarrow>
                      (Inr (Response 201 (Recipe_data (cart_recipe row))), st'))))"

definition delete_from_shopping_cart :: "store \<Rightarrow> nat \<Rightarrow> nat \<Rightarrow> response \<times> store" where
  "delete_from_shopping_cart st user i =
     dispatch
       (case get_recipe_or_404 st i of
          Inl e \<Rightarrow> (Inl e, st)
        | Inr recipe \<Rightarrow>
            (let delete_count =
                   length (filter (\<lambda>x. cart_user x = user \<and> cart_recipe x = i)
                             (shopping_cart st));
                 st' = st\<lparr>shopping_cart :=
                            filter (\<lambda>x. \<not> (cart_user x = user \<and> cart_recipe x = i))
                              (shopping_cart st)\<rparr>
             in if delete_count = 0 then (Inl (ValidationError Not_in_shopping_cart), st')
                else (Inr (Response 204 No_content), st')))"

section \<open>Shopping list (RecipeViewSet.download_shopping_cart)\<close>

text \<open>
  The rows the query joins: a \<open>RecipeIngredient\<close> row, its recipe, a shopping cart row
  of that recipe owned by the user, and the ingredient of the row, which gives the two
  grouping columns.
\<close>

type_synonym group_key = "string \<times> string"

definition cart_rows :: "store \<Rightarrow> nat \<Rightarrow> (group_key \<times> int) list" where
  "cart_rows st user =
     [((ingredient_name i, measurement_unit i), amount ri).
        ri \<leftarrow> recipe_ingredients st,
        r \<leftarrow> recipes st, has_pk (ri_recipe ri) r,
        sc \<leftarrow> shopping_cart st, cart_recipe sc = ri_recipe ri \<and> cart_user sc = user,
        i \<leftarrow> ingredients st, ingredient_pk i = ri_ingredient ri]"

text \<open>
  \<open>values(name, unit).annotate(total_amount=Sum('amount'))\<close>: the joined rows are
  grouped by the two columns and the amounts of a group are added up.
\<close>

fun add_to_group :: "group_key \<Rightarrow> int \<Rightarrow> (group_key \<times> int) list \<Rightarrow> (group_key \<times> int) list" where
  "add_to_group k a [] = [(k, a)]"
| "add_to_group k a (g # gs) =
     (if fst g = k then (k, snd g + a) # gs else g # add_to_group k a gs)"

definition group_sum :: "(group_key \<times> int) list \<Rightarrow> (group_key \<times> int) list" where
  "group_sum rows = foldl (\<lambda>gs row. add_to_group (fst row) (snd row) gs) [] rows"

definition ingredients_query :: "store \<Rightarrow> nat \<Rightarrow> (group_key \<times> int) list" where
  "ingredients_query st user = group_sum (cart_rows st user)"

definition report_row :: "group_key \<times> int \<Rightarrow> cell list" where
  "report_row g = [Text (fst (fst g)), Number (snd g), Text (snd (fst g))]"

text \<open>The body of the view for the rows \<open>rs\<close> that the queryset delivers.\<close>

definition shopping_list :: "(group_key \<times> int) list \<Rightarrow> response" where
  "shopping_list rs =
     (if rs = [] then Response 400 (Error_message Cart_is_empty)
      else HttpResponse ([Header_ingredient, Header_amount, Header_unit] # map report_row rs))"

text \<open>
  The queryset has no \<open>order_by\<close> and \<open>RecipeIngredient\<close> has no default ordering, so
  the statement sent to the database has no ORDER BY clause: the database delivers
  the groups in an order of its own choice. The view is therefore a relation between
  the store, the user and the response: any sequence \<open>rs\<close> of the groups is a possible
  result of the query. Nothing in this model raises inside the \<open>try\<close> block, so its
  handler (a 500 with a fixed message) is not reached.
\<close>

inductive download_shopping_cart :: "store \<Rightarrow> nat \<Rightarrow> response \<Rightarrow> bool" where
  delivered:
    "mset rs = mset (ingredients_query st user) \<Longrightarrow>
       download_shopping_cart st user (shopping_list rs)"

text \<open>
  Three notions to state what the report holds. \<open>total k rows\<close> is the sum of the
  amounts of the rows with key \<open>k\<close>. \<open>rows_of_cart\<close> lists, for every
  \<open>RecipeIngredient\<close> row of a recipe in the user's shopping cart, the name and unit
  of its ingredient and its amount. \<open>integrity\<close> holds of a store that respects the
  primary keys of recipes and ingredients, the unique constraint of the shopping cart
  and the foreign key from \<open>RecipeIngredient\<close> to \<open>Recipe\<close>.
\<close>

definition total :: "group_key \<Rightarrow> (group_key \<times> int) list \<Rightarrow> int" where
  "total k rows = sum_list (map snd (filter (\<lambda>x. fst x = k) rows))"

definition rows_of_cart :: "store \<Rightarrow> nat \<Rightarrow> (group_key \<times> int) list" where
  "rows_of_cart st user =
     concat (map (\<lambda>ri. case find (\<lambda>x. ingredient_pk x = ri_ingredient ri) (ingredients st) of
                          None \<Rightarrow> []
                        | Some x \<Rightarrow> [((ingredient_name x, measurement_unit x), amount ri)])
       (filter (\<lambda>ri. is_in_shopping_cart st user (ri_recipe ri)) (recipe_ingredients st)))"

definition integrity :: "store \<Rightarrow> bool" where
  "integrity st =
     (distinct (map pk (recipes st)) \<and> distinct (map ingredient_pk (ingredients st))
      \<and> distinct (shopping_cart st)
      \<and> list_all (\<lambda>ri. list_ex (has_pk (ri_recipe ri)) (recipes st)) (recipe_ingredients st))"

text \<open>The data rows of a report, without their order; no rows for any other response.\<close>

fun data_rows :: "response \<Rightarrow> cell list multiset" where
  "data_rows (HttpResponse rows) = mset (tl rows)"
| "data_rows (Response s p) = {#}"
| "data_rows (HttpResponseRedirect url) = {#}"

section \<open>Short link resolution (redirect_to_recipe)\<close>

fun string_of_nat :: "nat \<Rightarrow> string" where
  "string_of_nat n =
     (if n < 10 then [''0123456789'' ! n]
      else string_of_nat (n div 10) @ [''0123456789'' ! (n mod 10)])"

declare string_of_nat.simps [simp del]

definition str_pk :: "nat option \<Rightarrow> string" where
  "str_pk p = (case p of None \<Rightarrow> ''None'' | Some i \<Rightarrow> string_of_nat i)"

text \<open>\<open>base\<close> is the scheme and host of the request (\<open>build_absolute_uri\<close>).\<close>

definition build_absolute_uri :: "string \<Rightarrow> string \<Rightarrow> string" where
  "build_absolute_uri base path = base @ path"

text \<open>
  The whole body is inside \<open>try ... except Exception\<close>: every exception, the
  \<open>Http404\<close> of \<open>get_object_or_404\<close> included, is answered by the 500 response.
\<close>

definition redirect_to_recipe :: "store \<Rightarrow> string \<Rightarrow> string \<Rightarrow> response" where
  "redirect_to_recipe st base sl =
     (case get_object_or_404 (filter (\<lambda>r. short_link r = sl) (recipes st)) of
        Inl e \<Rightarrow> Response 500 (Error_message Redirect_failed)
      | Inr recipe \<Rightarrow>
          HttpResponseRedirect
            (build_absolute_uri base (''/recipes/'' @ str_pk (pk recipe) @ ''/'')))"

section \<open>Reachable stores\<close>

text \<open>The invariant of the subscription table: no row joins a user to themselves.\<close>

definition no_self_subscription :: "store \<Rightarrow> bool" where
  "no_self_subscription st =
     list_all (\<lambda>x. sub_author x \<noteq> sub_subscriber x) (subscriptions st)"

text \<open>
  The stores that the modelled operations produce from the empty one. Users and
  ingredients are added by code outside the core; \<open>model_insert\<close> rules stand for any
  other writer that goes through the object managers (the admin site).
\<close>

inductive reachable :: "store \<Rightarrow> bool" where
  initial: "reachable empty_store"
| new_user: "reachable st \<Longrightarrow> reachable (st\<lparr>users := users st @ [u]\<rparr>)"
| new_ingredient: "reachable st \<Longrightarrow> reachable (st\<lparr>ingredients := ingredients st @ [i]\<rparr>)"
| recipe_created: "reachable st \<Longrightarrow> reachable (fst (snd (create st rnd k u d)))"
| recipe_updated: "reachable st \<Longrightarrow> reachable (fst (snd (update st rnd k r p)))"
| subscribed: "reachable st \<Longrightarrow> reachable (snd (subscribe st u i))"
| unsubscribed: "reachable st \<Longrightarrow> reachable (snd (unsubscribe st u i))"
| favorited: "reachable st \<Longrightarrow> reachable (snd (favorite st u i))"
| unfavorited: "reachable st \<Longrightarrow> reachable (snd (delete_from_favorites st u i))"
| carted: "reachable st \<Longrightarrow> reachable (snd (add_to_shopping_cart st u i))"
| uncarted: "reachable st \<Longrightarrow> reachable (snd (delete_from_shopping_cart st u i))"
| model_insert_subscription:
    "reachable st \<Longrightarrow> reachable (snd (Subscription_objects_create st row))"
| model_insert_favorite:
    "reachable st \<Longrightarrow> reachable (snd (Favorite_objects_create st f))"
| model_insert_shopping_cart:
    "reachable st \<Longrightarrow> reachable (snd (ShoppingCart_objects_create st c))"

section \<open>Example data\<close>

text \<open>
  A small store: recipe 1 needs 200 g of flour and 2 eggs, recipe 2 needs 300 g of
  flour and 50 g of sugar; user 1 has both in the shopping cart and recipe 1 among
  the favorites, and follows user 2.
\<close>

definition example_recipe :: "nat \<Rightarrow> string \<Rightarrow> string \<Rightarrow> recipe" where
  "example_recipe i n sl =
     \<lparr>pk = Some i, recipe_name = n, recipe_text = ''mix and bake'', cooking_time = 30,
      image = ''recipes/images/r.png'', author = 2, short_link = sl\<rparr>"

definition example_store :: store where
  "example_store =
     \<lparr>users = [1, 2],
      ingredients =
        [\<lparr>ingredient_pk = 1, ingredient_name = ''flour'', measurement_unit = ''g''\<rparr>,
         \<lparr>ingredient_pk = 2, ingredient_name = ''egg'', measurement_unit = ''pcs''\<rparr>,
         \<lparr>ingredient_pk = 3, ingredient_name = ''sugar'', measurement_unit = ''g''\<rparr>],
      recipes =
        [example_recipe 1 ''cake'' ''aaaaaaaaaa'', example_recipe 2 ''bread'' ''bbbbbbbbbb''],
      recipe_tags = [(1, 1), (2, 1)],
      recipe_ingredients =
        [\<lparr>ri_recipe = 1, ri_ingredient = 1, amount = 200\<rparr>,
         \<lparr>ri_recipe = 1, ri_ingredient = 2, amount = 2\<rparr>,
         \<lparr>ri_recipe = 2, ri_ingredient = 1, amount = 300\<rparr>,
         \<lparr>ri_recipe = 2, ri_ingredient = 3, amount = 50\<rparr>],
      subscriptions = [\<lparr>sub_author = 2, sub_subscriber = 1\<rparr>],
      favorites = [\<lparr>fav_user = 1, fav_recipe = 1\<rparr>],
      shopping_cart =
        [\<lparr>cart_user = 1, cart_recipe = 1\<rparr>, \<lparr>cart_user = 1, cart_recipe = 2\<rparr>],
      next_recipe_pk = 3\<rparr>"

text \<open>
  The example store after every \<open>RecipeIngredient\<close> row was deleted: the shopping
  cart of user 1 still holds both recipes.
\<close>

definition bare_cart_store :: store where
  "bare_cart_store = example_store\<lparr>recipe_ingredients := []\<rparr>"

text \<open>The example store with its \<open>RecipeIngredient\<close> rows inserted in reverse order.\<close>

definition reordered_store :: store where
  "reordered_store = example_store\<lparr>recipe_ingredients := rev (recipe_ingredients example_store)\<rparr>"

text \<open>A store with two users and nothing else.\<close>

definition two_users :: store where
  "two_users = empty_store\<lparr>users := [1, 2]\<rparr>"

text \<open>
  Validated data of a creation request whose second ingredient has no row in the
  store any more.
\<close>

definition example_data :: recipe_data where
  "example_data =
     \<lparr>rd_name = ''pie'', rd_text = ''bake'', rd_cooking_time = 45,
      rd_image = ''recipes/images/pie.png'', rd_ingredients = [(1, 250), (4, 5)],
      rd_tags = [1, 2]\<rparr>"

text \<open>
  Data of three updates: the first supplies a new name and an ingredient list and
  omits the tags, the second supplies the same and a tag list (it passes \<open>validate\<close>),
  and the third supplies only tags.
\<close>

definition example_patch :: recipe_patch where
  "example_patch =
     \<lparr>p_name = Some ''tart'', p_text = None, p_cooking_time = None, p_image = None,
      p_ingredients = Some [(3, 70), (2, 1)], p_tags = None\<rparr>"

definition example_full_patch :: recipe_patch where
  "example_full_patch =
     \<lparr>p_name = Some ''tart'', p_text = None, p_cooking_time = None, p_image = None,
      p_ingredients = Some [(3, 70), (2, 1)], p_tags = Some [2]\<rparr>"

definition example_tags_patch :: recipe_patch where
  "example_tags_patch =
     \<lparr>p_name = None, p_text = None, p_cooking_time = None, p_image = None,
      p_ingredients = None, p_tags = Some [2]\<rparr>"

text \<open>A random source that returns the short link of recipe 1 at every call.\<close>

definition stuck_source :: random_source where
  "stuck_source k len = ''aaaaaaaaaa''"

text \<open>A random source that returns a string no recipe of the example store has.\<close>

definition fresh_source :: random_source where
  "fresh_source k len = ''cccccccccc''"

section \<open>Frame and case lemmas\<close>

lemma list_ex_filter_Nil: "\<not> list_ex P xs \<Longrightarrow> filter P xs = []"
  by (induction xs) auto

lemma Model_save_Inr:
  assumes "Model_save st self = (Inr r, st')"
  shows "r = self\<lparr>pk := pk r\<rparr>" and "r \<in> set (recipes st')"
  using assms
  by (auto simp: Model_save_def insert_recipe_def has_pk_def list_ex_iff
      split: option.splits if_splits)

lemma Model_save_same_pk:
  assumes "Model_save st self = (Inr r, st')" and "pk self = Some i"
    and "x \<in> set (recipes st')" and "pk x = Some i"
  shows "x = self"
  using assms
  by (auto simp: Model_save_def insert_recipe_def has_pk_def list_ex_iff
      split: option.splits if_splits)

lemma Model_save_Inl:
  "Model_save st self = (Inl e, st') \<Longrightarrow> recipes st' = recipes st"
  by (auto simp: Model_save_def insert_recipe_def split: option.splits if_splits)

lemma Model_save_frame:
  "users (snd (Model_save st self)) = users st"
  "ingredients (snd (Model_save st self)) = ingredients st"
  "recipe_tags (snd (Model_save st self)) = recipe_tags st"
  "recipe_ingredients (snd (Model_save st self)) = recipe_ingredients st"
  "subscriptions (snd (Model_save st self)) = subscriptions st"
  "favorites (snd (Model_save st self)) = favorites st"
  "shopping_cart (snd (Model_save st self)) = shopping_cart st"
  by (simp_all add: Model_save_def insert_recipe_def split: option.splits)

lemma save_frame:
  "users (fst (snd (save st rnd k self))) = users st"
  "ingredients (fst (snd (save st rnd k self))) = ingredients st"
  "recipe_tags (fst (snd (save st rnd k self))) = recipe_tags st"
  "recipe_ingredients (fst (snd (save st rnd k self))) = recipe_ingredients st"
  "subscriptions (fst (snd (save st rnd k self))) = subscriptions st"
  "favorites (fst (snd (save st rnd k self))) = favorites st"
  "shopping_cart (fst (snd (save st rnd k self))) = shopping_cart st"
  by (simp_all add: save_def Model_save_frame split: prod.splits sum.splits)

lemma RecipeIngredient_objects_create_frame:
  "users (snd (RecipeIngredient_objects_create st row)) = users st"
  "ingredients (snd (RecipeIngredient_objects_create st row)) = ingredients st"
  "recipes (snd (RecipeIngredient_objects_create st row)) = recipes st"
  "recipe_tags (snd (RecipeIngredient_objects_create st row)) = recipe_tags st"
  "subscriptions (snd (RecipeIngredient_objects_create st row)) = subscriptions st"
  "favorites (snd (RecipeIngredient_objects_create st row)) = favorites st"
  "shopping_cart (snd (RecipeIngredient_objects_create st row)) = shopping_cart st"
  "next_recipe_pk (snd (RecipeIngredient_objects_create st row)) = next_recipe_pk st"
  by (simp_all add: RecipeIngredient_objects_create_def)

lemma add_ingredients_frame:
  "users (snd (add_ingredients st rid xs)) = users st
   \<and> ingredients (snd (add_ingredients st rid xs)) = ingredients st
   \<and> recipes (snd (add_ingredients st rid xs)) = recipes st
   \<and> recipe_tags (snd (add_ingredients st rid xs)) = recipe_tags st
   \<and> subscriptions (snd (add_ingredients st rid xs)) = subscriptions st
   \<and> favorites (snd (add_ingredients st rid xs)) = favorites st
   \<and> shopping_cart (snd (add_ingredients st rid xs)) = shopping_cart st
   \<and> next_recipe_pk (snd (add_ingredients st rid xs)) = next_recipe_pk st"
proof (induction xs arbitrary: st)
  case Nil
  then show ?case by simp
next
  case (Cons x xs)
  let ?row = "ingredient_row rid x"
  obtain res st' where step: "RecipeIngredient_objects_create st ?row = (res, st')"
    by (cases "RecipeIngredient_objects_create st ?row")
  have fr: "users st' = users st" "ingredients st' = ingredients st"
    "recipes st' = recipes st" "recipe_tags st' = recipe_tags st"
    "subscriptions st' = subscriptions st" "favorites st' = favorites st"
    "shopping_cart st' = shopping_cart st" "next_recipe_pk st' = next_recipe_pk st"
    using RecipeIngredient_objects_create_frame [of st ?row] step by simp_all
  show ?case
  proof (cases res)
    case (Inl e)
    with step fr show ?thesis by simp
  next
    case (Inr row)
    with step fr Cons.IH [of st'] show ?thesis by simp
  qed
qed

lemma tags_set_frame:
  "users (tags_set st rid ts) = users st"
  "ingredients (tags_set st rid ts) = ingredients st"
  "recipes (tags_set st rid ts) = recipes st"
  "recipe_ingredients (tags_set st rid ts) = recipe_ingredients st"
  "subscriptions (tags_set st rid ts) = subscriptions st"
  "favorites (tags_set st rid ts) = favorites st"
  "shopping_cart (tags_set st rid ts) = shopping_cart st"
  "next_recipe_pk (tags_set st rid ts) = next_recipe_pk st"
  by (simp_all add: tags_set_def)

lemma delete_ingredient_in_recipe_frame:
  "users (delete_ingredient_in_recipe st rid) = users st"
  "ingredients (delete_ingredient_in_recipe st rid) = ingredients st"
  "recipes (delete_ingredient_in_recipe st rid) = recipes st"
  "recipe_tags (delete_ingredient_in_recipe st rid) = recipe_tags st"
  "subscriptions (delete_ingredient_in_recipe st rid) = subscriptions st"
  "favorites (delete_ingredient_in_recipe st rid) = favorites st"
  "shopping_cart (delete_ingredient_in_recipe st rid) = shopping_cart st"
  "next_recipe_pk (delete_ingredient_in_recipe st rid) = next_recipe_pk st"
  by (simp_all add: delete_ingredient_in_recipe_def)

lemma add_ingredients_frameD:
  assumes "add_ingredients st rid xs = (res, st')"
  shows "users st' = users st" "ingredients st' = ingredients st" "recipes st' = recipes st"
    "recipe_tags st' = recipe_tags st" "subscriptions st' = subscriptions st"
    "favorites st' = favorites st" "shopping_cart st' = shopping_cart st"
    "next_recipe_pk st' = next_recipe_pk st"
  using add_ingredients_frame [of st rid xs] assms by simp_all

lemma update_cases:
  assumes "update st rnd k self p = (res, st', k')"
  obtains
    (save_failed) e where "save st rnd k (set_attrs self p) = (Inl e, st', k')" "res = Inl e"
  | (unsaved) r where "save st rnd k (set_attrs self p) = (Inr r, st', k')" "pk r = None"
      "res = Inl Unsaved_instance"
  | (kept) r rid st1 where "save st rnd k (set_attrs self p) = (Inr r, st1, k')" "pk r = Some rid"
      "p_ingredients p = None" "res = Inr r"
      "st' = (case p_tags p of None \<Rightarrow> st1 | Some ts \<Rightarrow> tags_set st1 rid ts)"
  | (replaced) r rid st1 ings res' where
      "save st rnd k (set_attrs self p) = (Inr r, st1, k')" "pk r = Some rid"
      "p_ingredients p = Some ings"
      "add_ingredients
         (delete_ingredient_in_recipe
            (case p_tags p of None \<Rightarrow> st1 | Some ts \<Rightarrow> tags_set st1 rid ts) rid) rid ings
         = (res', st')"
      "res = (case res' of Inl e \<Rightarrow> Inl e | Inr u \<Rightarrow> Inr r)"
  using assms
  by (auto simp: update_def ModelSerializer_update_def Let_def
      split: prod.splits sum.splits option.splits)


lemma create_cases:
  assumes "create st rnd k u d = (res, st', k')"
  obtains
    (save_failed) e where "save st rnd k (new_recipe u d) = (Inl e, st', k')" "res = Inl e"
  | (unsaved) r where "save st rnd k (new_recipe u d) = (Inr r, st', k')" "pk r = None"
      "res = Inl Unsaved_instance"
  | (added) r rid st1 res' where
      "save st rnd k (new_recipe u d) = (Inr r, st1, k')" "pk r = Some rid"
      "add_ingredients (tags_set st1 rid (rd_tags d)) rid (rd_ingredients d) = (res', st')"
      "res = (case res' of Inl e \<Rightarrow> Inl e | Inr u \<Rightarrow> Inr r)"
  using assms
  by (auto simp: create_def Recipe_objects_create_def
      split: prod.splits sum.splits option.splits)

lemma draw_loop_None:
  "draw_loop st rnd len n k = (None, k') \<Longrightarrow> k' = k + n"
  by (induction n arbitrary: k) (fastforce split: if_splits)+

lemma draw_loop_Some:
  "draw_loop st rnd len n k = (Some sl, k') \<Longrightarrow>
   \<not> short_link_exists st sl \<and> k < k' \<and> k' \<le> k + n \<and> sl = rnd (k' - 1) len"
proof (induction n arbitrary: k)
  case 0
  then show ?case by simp
next
  case (Suc n)
  show ?case
  proof (cases "short_link_exists st (rnd k len)")
    case True
    with Suc.prems have "draw_loop st rnd len n (Suc k) = (Some sl, k')" by simp
    from Suc.IH [OF this] show ?thesis by auto
  next
    case False
    with Suc.prems show ?thesis by auto
  qed
qed

lemma save_new_cases:
  assumes "save st rnd k self = (res, st', k')" and "short_link self = []" and "pk self = None"
  obtains
    (exhausted) "res = Inl ValueError" "st' = st" "k' = k + 10"
  | (inserted) sl where "\<not> short_link_exists st sl"
      "res = Inr (self\<lparr>short_link := sl, pk := Some (next_recipe_pk st)\<rparr>)"
      "st' = st\<lparr>next_recipe_pk := Suc (next_recipe_pk st),
                recipes := recipes st @ [self\<lparr>short_link := sl, pk := Some (next_recipe_pk st)\<rparr>]\<rparr>"
      "k < k'" "k' \<le> k + 10"
proof (cases "draw_loop st rnd 10 (nat 10) k")
  case (Pair drawn k1)
  show thesis
  proof (cases drawn)
    case None
    with Pair assms have "res = Inl ValueError" "st' = st" "k' = k1"
      by (simp_all add: save_def get_short_link_def)
    moreover from Pair None have "k1 = k + 10" using draw_loop_None [of st rnd 10 "nat 10" k k1] by simp
    ultimately show thesis using exhausted by simp
  next
    case (Some sl)
    from Pair Some have "draw_loop st rnd 10 (nat 10) k = (Some sl, k1)" by simp
    from draw_loop_Some [OF this]
    have fresh: "\<not> short_link_exists st sl" and bounds: "k < k1" "k1 \<le> k + 10" by auto
    from Pair Some assms fresh
    have res: "res = Inr (self\<lparr>short_link := sl, pk := Some (next_recipe_pk st)\<rparr>)"
      and st: "st' = st\<lparr>next_recipe_pk := Suc (next_recipe_pk st),
                recipes := recipes st @ [self\<lparr>short_link := sl, pk := Some (next_recipe_pk st)\<rparr>]\<rparr>"
      and k: "k' = k1"
      by (simp_all add: save_def get_short_link_def Model_save_def insert_recipe_def
          short_link_exists_def)
    show thesis
      by (rule inserted [OF fresh res st]) (simp_all add: k bounds)
  qed
qed

lemma add_ingredients_rows:
  "add_ingredients st rid xs = (res, st') \<Longrightarrow>
   \<exists>n\<le>length xs. recipe_ingredients st' = recipe_ingredients st @ map (ingredient_row rid) (take n xs)
      \<and> (res = Inr () \<longrightarrow> n = length xs)
      \<and> (\<forall>e. res = Inl e \<longrightarrow> n < length xs \<and> (\<exists>c. e = IntegrityError c))"
proof (induction xs arbitrary: st)
  case Nil
  then show ?case by auto
next
  case (Cons x xs)
  show ?case
  proof (cases "fst (RecipeIngredient_objects_create st (ingredient_row rid x))")
    case (Inl e)
    with Cons.prems have "res = Inl e" "st' = st" "\<exists>c. e = IntegrityError c"
      by (auto simp: RecipeIngredient_objects_create_def split: if_splits)
    then show ?thesis by (intro exI [of _ 0]) auto
  next
    case (Inr row)
    then have step: "RecipeIngredient_objects_create st (ingredient_row rid x)
        = (Inr (ingredient_row rid x),
           st\<lparr>recipe_ingredients := recipe_ingredients st @ [ingredient_row rid x]\<rparr>)"
      by (auto simp: RecipeIngredient_objects_create_def split: if_splits)
    with Cons.prems have "add_ingredients
        (st\<lparr>recipe_ingredients := recipe_ingredients st @ [ingredient_row rid x]\<rparr>) rid xs
        = (res, st')" by simp
    from Cons.IH [OF this] obtain n where n: "n \<le> length xs"
      "recipe_ingredients st' = (recipe_ingredients st @ [ingredient_row rid x])
           @ map (ingredient_row rid) (take n xs)"
      "res = Inr () \<longrightarrow> n = length xs"
      "\<forall>e. res = Inl e \<longrightarrow> n < length xs \<and> (\<exists>c. e = IntegrityError c)"
      by auto
    then show ?thesis by (intro exI [of _ "Suc n"]) auto
  qed
qed

section \<open>Short link generation\<close>

lemma draw_loop_all_collide:
  "\<forall>i<n. short_link_exists st (rnd (k + i) len) \<Longrightarrow> draw_loop st rnd len n k = (None, k + n)"
proof (induction n arbitrary: k)
  case 0
  then show ?case by simp
next
  case (Suc n)
  from Suc.prems have here: "short_link_exists st (rnd k len)"
    by (metis add.right_neutral zero_less_Suc)
  have "\<forall>i<n. short_link_exists st (rnd (Suc k + i) len)"
  proof (intro allI impI)
    fix i assume "i < n"
    then have "Suc i < Suc n" by simp
    with Suc.prems have "short_link_exists st (rnd (k + Suc i) len)" by blast
    then show "short_link_exists st (rnd (Suc k + i) len)" by simp
  qed
  then have "draw_loop st rnd len n (Suc k) = (None, Suc k + n)" by (rule Suc.IH)
  with here show ?case by simp
qed

lemma get_short_link_exhausted:
  "\<forall>i<nat attempt. short_link_exists st (rnd (k + i) len) \<Longrightarrow>
   get_short_link st rnd k self len attempt = (Inl ValueError, k + nat attempt)"
  by (simp add: get_short_link_def draw_loop_all_collide)

lemma save_exhausted:
  "short_link self = [] \<Longrightarrow> \<forall>i<10. short_link_exists st (rnd (k + i) 10) \<Longrightarrow>
   save st rnd k self = (Inl ValueError, st, k + 10)"
  using get_short_link_exhausted [of 10 st rnd k 10 self]
  by (simp add: save_def)

lemma create_exhausted:
  "\<forall>i<10. short_link_exists st (rnd (k + i) 10) \<Longrightarrow>
   create st rnd k u d = (Inl ValueError, st, k + 10)"
  by (simp add: create_def Recipe_objects_create_def save_exhausted new_recipe_def)

lemma stuck_source_collides: "short_link_exists example_store (stuck_source k len)"
  by (simp add: short_link_exists_def example_store_def stuck_source_def example_recipe_def)

text \<open>
  Claim C5. When every candidate that is drawn is the short link of some recipe,
  \<open>get_short_link\<close> raises its \<open>ValueError\<close> (the spec's LinkGenerationFailed) after
  exactly \<open>attempt\<close> draws; with the defaults of \<open>save\<close> (ten attempts) the creation
  of a recipe fails with that error after ten draws and the store is the one it
  started from: no recipe row, with or without a link, is written.
\<close>

theorem short_link_generation_exhausted:
  "((\<forall>i<nat attempt. short_link_exists st (rnd (k + i) len)) \<longrightarrow>
      get_short_link st rnd k self len attempt = (Inl ValueError, k + nat attempt))
   \<and> ((\<forall>i<10. short_link_exists st (rnd (k + i) 10)) \<longrightarrow>
      create st rnd k u d = (Inl ValueError, st, k + 10))"
  by (simp add: get_short_link_exhausted create_exhausted)

theorem short_link_generation_exhausted_witness:
  "list_all (\<lambda>i. short_link_exists example_store (stuck_source (0 + i) 10)) [0..<10]
   \<and> get_short_link example_store stuck_source 0 (new_recipe 1 example_data) 10 10
       = (Inl ValueError, 10)
   \<and> create example_store stuck_source 0 1 example_data = (Inl ValueError, example_store, 10)"
  using short_link_generation_exhausted
    [of 10 example_store stuck_source 0 10 "new_recipe 1 example_data" 1 example_data]
  by (simp add: stuck_source_collides list_all_iff)

section \<open>Saving a recipe that has a short link\<close>

lemma set_attrs_keeps [simp]:
  "pk (set_attrs r p) = pk r" "short_link (set_attrs r p) = short_link r"
  "author (set_attrs r p) = author r"
  by (simp_all add: set_attrs_def)

lemma save_existing_link:
  assumes "short_link self \<noteq> []" and "save st rnd k self = (res, st', k')"
  shows "Model_save st self = (res, st')" and "k' = k"
  using assms by (auto simp: save_def prod_eq_iff)

text \<open>
  Claim C9. A recipe whose \<open>short_link\<close> is not empty is saved without a draw from the
  random source, and what is saved is the instance itself: its row carries the same
  \<open>short_link\<close> and the same values of all other fields, and a failed save writes no
  recipe row. The same holds for \<open>update\<close>, which saves the instance after setting
  the supplied attributes: the stored row of the recipe keeps its \<open>short_link\<close>.
\<close>

theorem existing_short_link_kept:
  assumes "short_link self \<noteq> []"
  shows "(save st rnd k self = (res, st', k') \<longrightarrow>
           k' = k
           \<and> (\<forall>r. res = Inr r \<longrightarrow> r = self\<lparr>pk := pk r\<rparr> \<and> r \<in> set (recipes st')
                 \<and> (\<forall>i x. pk self = Some i \<and> x \<in> set (recipes st') \<and> pk x = Some i \<longrightarrow> x = self))
           \<and> (\<forall>e. res = Inl e \<longrightarrow> recipes st' = recipes st))
       \<and> (update st rnd k self p = (res2, st2, k2) \<longrightarrow>
           k2 = k
           \<and> (\<forall>r. res2 = Inr r \<longrightarrow> short_link r = short_link self \<and> r \<in> set (recipes st2)
                 \<and> (\<forall>i x. pk self = Some i \<and> x \<in> set (recipes st2) \<and> pk x = Some i
                        \<longrightarrow> short_link x = short_link self)))"
proof (intro conjI impI)
  assume s: "save st rnd k self = (res, st', k')"
  from save_existing_link [OF assms s] have ms: "Model_save st self = (res, st')" and k: "k' = k" .
  show "k' = k" by (rule k)
  show "\<forall>r. res = Inr r \<longrightarrow> r = self\<lparr>pk := pk r\<rparr> \<and> r \<in> set (recipes st')
          \<and> (\<forall>i x. pk self = Some i \<and> x \<in> set (recipes st') \<and> pk x = Some i \<longrightarrow> x = self)"
    using ms Model_save_Inr Model_save_same_pk by blast
  show "\<forall>e. res = Inl e \<longrightarrow> recipes st' = recipes st"
    using ms Model_save_Inl by blast
next
  assume u: "update st rnd k self p = (res2, st2, k2)"
  have link: "short_link (set_attrs self p) \<noteq> []" using assms by simp
  have main: "k2 = k \<and> (\<forall>r. res2 = Inr r \<longrightarrow>
      r = (set_attrs self p)\<lparr>pk := pk r\<rparr> \<and> r \<in> set (recipes st2)
      \<and> (\<forall>i x. pk self = Some i \<and> x \<in> set (recipes st2) \<and> pk x = Some i \<longrightarrow> x = set_attrs self p))"
    using u
  proof (cases rule: update_cases)
    case (save_failed e)
    from save_existing_link [OF link save_failed(1)] save_failed(2) show ?thesis by simp
  next
    case (unsaved r)
    from save_existing_link [OF link unsaved(1)] unsaved(3) show ?thesis by simp
  next
    case (kept r rid st1)
    from save_existing_link [OF link kept(1)]
    have ms: "Model_save st (set_attrs self p) = (Inr r, st1)" and k: "k2 = k" .
    have "recipes st2 = recipes st1" using kept(5) by (simp add: tags_set_frame split: option.splits)
    with ms k kept(4) Model_save_Inr [OF ms] Model_save_same_pk [OF ms] show ?thesis
      by (metis Inr_inject set_attrs_keeps(1))
  next
    case (replaced r rid st1 ings res')
    from save_existing_link [OF link replaced(1)]
    have ms: "Model_save st (set_attrs self p) = (Inr r, st1)" and k: "k2 = k" .
    have "recipes st2 = recipes st1"
      using add_ingredients_frameD(3) [OF replaced(4)]
      by (simp add: delete_ingredient_in_recipe_frame tags_set_frame split: option.splits)
    moreover have "res2 = Inr r' \<Longrightarrow> r' = r" for r'
      using replaced(5) by (cases res') auto
    ultimately show ?thesis
      using ms k Model_save_Inr [OF ms] Model_save_same_pk [OF ms]
      by (metis set_attrs_keeps(1))
  qed
  show "k2 = k" using main by simp
  show "\<forall>r. res2 = Inr r \<longrightarrow> short_link r = short_link self \<and> r \<in> set (recipes st2)
          \<and> (\<forall>i x. pk self = Some i \<and> x \<in> set (recipes st2) \<and> pk x = Some i
                        \<longrightarrow> short_link x = short_link self)"
  proof (intro allI impI)
    fix r assume "res2 = Inr r"
    with main have a: "r = (set_attrs self p)\<lparr>pk := pk r\<rparr>" and b: "r \<in> set (recipes st2)"
      and c: "\<forall>i x. pk self = Some i \<and> x \<in> set (recipes st2) \<and> pk x = Some i \<longrightarrow> x = set_attrs self p"
      by blast+
    have "short_link r = short_link ((set_attrs self p)\<lparr>pk := pk r\<rparr>)" using a by simp
    then have "short_link r = short_link self" by simp
    moreover have "\<forall>i x. pk self = Some i \<and> x \<in> set (recipes st2) \<and> pk x = Some i
                        \<longrightarrow> short_link x = short_link self"
      using c by (metis set_attrs_keeps(2))
    ultimately show "short_link r = short_link self \<and> r \<in> set (recipes st2)
          \<and> (\<forall>i x. pk self = Some i \<and> x \<in> set (recipes st2) \<and> pk x = Some i
                        \<longrightarrow> short_link x = short_link self)" using b by blast
  qed
qed

theorem existing_short_link_kept_witness:
  "short_link (example_recipe 1 ''pound cake'' ''aaaaaaaaaa'') \<noteq> []
   \<and> snd (snd (save example_store fresh_source 0 (example_recipe 1 ''pound cake'' ''aaaaaaaaaa''))) = 0
   \<and> fst (save example_store fresh_source 0 (example_recipe 1 ''pound cake'' ''aaaaaaaaaa''))
       = Inr (example_recipe 1 ''pound cake'' ''aaaaaaaaaa'')
   \<and> recipes (fst (snd (save example_store fresh_source 0
         (example_recipe 1 ''pound cake'' ''aaaaaaaaaa''))))
       = [example_recipe 1 ''pound cake'' ''aaaaaaaaaa'', example_recipe 2 ''bread'' ''bbbbbbbbbb'']
   \<and> fst (update example_store fresh_source 0 (example_recipe 1 ''cake'' ''aaaaaaaaaa'')
         example_patch) = Inr (example_recipe 1 ''tart'' ''aaaaaaaaaa'')
   \<and> snd (snd (update example_store fresh_source 0 (example_recipe 1 ''cake'' ''aaaaaaaaaa'')
         example_patch)) = 0"
  using existing_short_link_kept [of "example_recipe 1 ''pound cake'' ''aaaaaaaaaa''"
      example_store fresh_source 0
      "fst (save example_store fresh_source 0 (example_recipe 1 ''pound cake'' ''aaaaaaaaaa''))"
      "fst (snd (save example_store fresh_source 0 (example_recipe 1 ''pound cake'' ''aaaaaaaaaa'')))"
      "snd (snd (save example_store fresh_source 0 (example_recipe 1 ''pound cake'' ''aaaaaaaaaa'')))"]
  by (simp add: save_def Model_save_def insert_recipe_def has_pk_def example_store_def
      example_recipe_def update_def ModelSerializer_update_def set_attrs_def example_patch_def
      delete_ingredient_in_recipe_def RecipeIngredient_objects_create_def ingredient_row_def)

section \<open>Updating a recipe\<close>

lemma save_pk:
  assumes "save st rnd k self = (Inr r, st', k')" and "pk self = Some i"
  shows "pk r = Some i"
  using assms
  by (auto simp: save_def get_short_link_def Model_save_def insert_recipe_def
      split: prod.splits option.splits if_splits)

lemma seen_loop_Inr:
  "seen_loop seen xs = Inr u \<longleftrightarrow> distinct (map fst xs) \<and> set (map fst xs) \<inter> seen = {}"
  by (induction xs arbitrary: seen) auto

lemma check_ingredients_Inr:
  "check_ingredients given = Inr u \<longleftrightarrow>
   (\<exists>items. given = Some items \<and> items \<noteq> [] \<and> distinct (map fst items))"
  by (auto simp: check_ingredients_def seen_loop_Inr split: option.splits)

lemma check_tags_Inr:
  "check_tags given = Inr u \<longleftrightarrow> (\<exists>ts. given = Some ts \<and> ts \<noteq> [] \<and> distinct ts)"
proof (cases given)
  case None
  then show ?thesis by (simp add: check_tags_def)
next
  case (Some ts)
  have "length ts = card (set ts) \<longleftrightarrow> distinct ts"
    using distinct_card [of ts] card_distinct [of ts] by auto
  with Some show ?thesis by (simp add: check_tags_def)
qed

lemma validate_Inr:
  "validate data = Inr data' \<longleftrightarrow>
   data' = data
   \<and> (\<exists>items ts. p_ingredients data = Some items \<and> items \<noteq> [] \<and> distinct (map fst items)
          \<and> p_tags data = Some ts \<and> ts \<noteq> [] \<and> distinct ts)"
proof -
  have "validate data = Inr data' \<longleftrightarrow>
      data' = data \<and> check_ingredients (p_ingredients data) = Inr ()
      \<and> check_tags (p_tags data) = Inr ()"
    by (auto simp: validate_def split: sum.splits)
  then show ?thesis by (simp add: check_ingredients_Inr check_tags_Inr) blast
qed

lemma validate_omitted:
  "p_ingredients data = None \<Longrightarrow> validate data = Inl (ValidationError Ingredients_required)"
  "p_ingredients data = Some items \<Longrightarrow> check_ingredients (Some items) = Inr () \<Longrightarrow>
   p_tags data = None \<Longrightarrow> validate data = Inl (ValidationError Tags_required)"
  by (simp_all add: validate_def check_ingredients_def check_tags_def)

lemma Model_save_persisted:
  assumes "persisted st self rid"
  shows "Model_save st self
     = (Inr self, st\<lparr>recipes := map (\<lambda>r. if has_pk rid r then self else r) (recipes st)\<rparr>)"
  using assms by (simp add: persisted_def Model_save_def)

lemma save_persisted:
  assumes "persisted st self rid"
  shows "save st rnd k self
     = (Inr self, st\<lparr>recipes := map (\<lambda>r. if has_pk rid r then self else r) (recipes st)\<rparr>, k)"
  using assms Model_save_persisted [OF assms] by (simp add: save_def persisted_def)

lemma persisted_set_attrs: "persisted st r rid \<Longrightarrow> persisted st (set_attrs r p) rid"
  by (simp add: persisted_def)

lemma add_ingredients_all:
  assumes "ingredients_exist st xs" and "distinct (map fst xs)"
    and "list_all (\<lambda>x. \<not> list_ex (\<lambda>r. ri_recipe r = rid \<and> ri_ingredient r = fst x)
                          (recipe_ingredients st)) xs"
  shows "add_ingredients st rid xs
     = (Inr (), st\<lparr>recipe_ingredients := recipe_ingredients st @ map (ingredient_row rid) xs\<rparr>)"
  using assms
proof (induction xs arbitrary: st)
  case Nil
  show ?case by simp
next
  case (Cons x xs)
  let ?st = "st\<lparr>recipe_ingredients := recipe_ingredients st @ [ingredient_row rid x]\<rparr>"
  from Cons.prems have step: "RecipeIngredient_objects_create st (ingredient_row rid x)
      = (Inr (ingredient_row rid x), ?st)"
    by (simp add: RecipeIngredient_objects_create_def ingredients_exist_def ingredient_row_def)
  from Cons.prems have a: "ingredients_exist ?st xs" and b: "distinct (map fst xs)"
    by (simp_all add: ingredients_exist_def)
  from Cons.prems have c: "list_all (\<lambda>y. \<not> list_ex (\<lambda>r. ri_recipe r = rid \<and> ri_ingredient r = fst y)
                          (recipe_ingredients ?st)) xs"
    by (auto simp: list_all_iff list_ex_iff ingredient_row_def)
  from Cons.IH [OF a b c] step show ?case by simp
qed

lemma add_ingredients_after_delete:
  assumes "ingredients_exist st xs" and "distinct (map fst xs)"
  shows "add_ingredients (delete_ingredient_in_recipe st rid) rid xs
     = (Inr (), st\<lparr>recipe_ingredients :=
                      filter (\<lambda>x. ri_recipe x \<noteq> rid) (recipe_ingredients st)
                      @ map (ingredient_row rid) xs\<rparr>)"
proof -
  let ?st = "delete_ingredient_in_recipe st rid"
  have a: "ingredients_exist ?st xs"
    using assms(1) by (simp add: ingredients_exist_def delete_ingredient_in_recipe_def)
  have c: "list_all (\<lambda>x. \<not> list_ex (\<lambda>r. ri_recipe r = rid \<and> ri_ingredient r = fst x)
                          (recipe_ingredients ?st)) xs"
    by (simp add: list_all_iff list_ex_iff delete_ingredient_in_recipe_def)
  from add_ingredients_all [OF a assms(2) c] show ?thesis
    by (simp add: delete_ingredient_in_recipe_def)
qed

lemma update_persisted:
  assumes "persisted st recipe rid"
    and "\<And>items. p_ingredients p = Some items \<Longrightarrow>
           distinct (map fst items) \<and> ingredients_exist st items"
  shows "\<exists>st'. update st rnd k recipe p = (Inr (set_attrs recipe p), st', k)
     \<and> recipes st' = map (\<lambda>r. if has_pk rid r then set_attrs recipe p else r) (recipes st)
     \<and> recipe_tags st'
         = (case p_tags p of None \<Rightarrow> recipe_tags st
            | Some ts \<Rightarrow> recipe_tags (tags_set st rid ts))
     \<and> recipe_ingredients st'
         = (case p_ingredients p of None \<Rightarrow> recipe_ingredients st
            | Some xs \<Rightarrow> filter (\<lambda>x. ri_recipe x \<noteq> rid) (recipe_ingredients st)
                        @ map (ingredient_row rid) xs)"
proof -
  let ?r = "set_attrs recipe p"
  let ?st1 = "st\<lparr>recipes := map (\<lambda>r. if has_pk rid r then ?r else r) (recipes st)\<rparr>"
  let ?st2 = "case p_tags p of None \<Rightarrow> ?st1 | Some ts \<Rightarrow> tags_set ?st1 rid ts"
  have s: "save st rnd k ?r = (Inr ?r, ?st1, k)"
    by (rule save_persisted [OF persisted_set_attrs [OF assms(1)]])
  have pk: "pk recipe = Some rid" using assms(1) by (simp add: persisted_def)
  have t2: "recipe_tags ?st2
      = (case p_tags p of None \<Rightarrow> recipe_tags st | Some ts \<Rightarrow> recipe_tags (tags_set st rid ts))"
    by (simp add: tags_set_def split: option.splits)
  have r2: "recipes ?st2 = recipes ?st1" "recipe_ingredients ?st2 = recipe_ingredients st"
    "ingredients ?st2 = ingredients st"
    by (simp_all add: tags_set_frame split: option.splits)
  show ?thesis
  proof (cases "p_ingredients p")
    case None
    then have u: "update st rnd k recipe p = (Inr ?r, ?st2, k)"
      by (simp add: update_def ModelSerializer_update_def s pk Let_def)
    show ?thesis
      by (rule exI [of _ ?st2]) (simp add: u t2 r2 None)
  next
    case (Some items)
    from assms(2) [OF Some] have d: "distinct (map fst items)" and e: "ingredients_exist st items"
      by simp_all
    from e r2(3) have e2: "ingredients_exist ?st2 items" by (simp add: ingredients_exist_def)
    let ?st4 = "?st2\<lparr>recipe_ingredients :=
                      filter (\<lambda>x. ri_recipe x \<noteq> rid) (recipe_ingredients ?st2)
                      @ map (ingredient_row rid) items\<rparr>"
    have a: "add_ingredients (delete_ingredient_in_recipe ?st2 rid) rid items = (Inr (), ?st4)"
      by (rule add_ingredients_after_delete [OF e2 d])
    have u: "update st rnd k recipe p = (Inr ?r, ?st4, k)"
      using Some a by (simp add: update_def ModelSerializer_update_def s pk Let_def)
    have f: "recipes ?st4 = recipes ?st2" "recipe_tags ?st4 = recipe_tags ?st2"
      "recipe_ingredients ?st4 = filter (\<lambda>x. ri_recipe x \<noteq> rid) (recipe_ingredients ?st2)
                      @ map (ingredient_row rid) items"
      by simp_all
    show ?thesis
      by (rule exI [of _ ?st4]) (simp add: u f t2 r2 Some)
  qed
qed

lemma tags_set_result:
  "{t. (rid, t) \<in> set (recipe_tags (tags_set st rid ts))} = set ts"
  "{rt \<in> set (recipe_tags (tags_set st rid ts)). fst rt \<noteq> rid}
     = {rt \<in> set (recipe_tags st). fst rt \<noteq> rid}"
  by (auto simp: tags_set_def)

lemma update_outcomes:
  assumes "update st rnd k recipe p = (res, st', k')"
  shows "(p_ingredients p = None \<longrightarrow> recipe_ingredients st' = recipe_ingredients st)
   \<and> (p_tags p = None \<longrightarrow> recipe_tags st' = recipe_tags st)
   \<and> (\<forall>r i. res = Inr r \<and> pk recipe = Some i \<longrightarrow> pk r = Some i)
   \<and> (\<forall>ings r rid. p_ingredients p = Some ings \<and> res = Inr r \<and> pk r = Some rid \<longrightarrow>
         recipe_ingredients st'
           = filter (\<lambda>x. ri_recipe x \<noteq> rid) (recipe_ingredients st)
             @ map (ingredient_row rid) ings)
   \<and> (\<forall>ings. p_ingredients p = Some ings \<longrightarrow>
         recipe_ingredients st' = recipe_ingredients st
         \<or> (\<exists>rid n. n \<le> length ings
               \<and> recipe_ingredients st'
                   = filter (\<lambda>x. ri_recipe x \<noteq> rid) (recipe_ingredients st)
                     @ map (ingredient_row rid) (take n ings)))"
  using assms
proof (cases rule: update_cases)
  case (save_failed e)
  from save_frame(3,4) [of st rnd k "set_attrs recipe p"] save_failed show ?thesis by simp
next
  case (unsaved r)
  from save_frame(3,4) [of st rnd k "set_attrs recipe p"] unsaved show ?thesis by simp
next
  case (kept r rid st1)
  from save_frame(3,4) [of st rnd k "set_attrs recipe p"] kept(1)
  have fr: "recipe_tags st1 = recipe_tags st" "recipe_ingredients st1 = recipe_ingredients st"
    by simp_all
  have pk: "pk recipe = Some i \<Longrightarrow> pk r = Some i" for i
    using save_pk [OF kept(1)] by simp
  have c1: "p_ingredients p = None \<longrightarrow> recipe_ingredients st' = recipe_ingredients st"
    using kept(5) fr(2) by (cases "p_tags p") (simp_all add: tags_set_frame)
  have c2: "p_tags p = None \<longrightarrow> recipe_tags st' = recipe_tags st"
    using kept(5) fr(1) by simp
  have c3: "\<forall>r i. res = Inr r \<and> pk recipe = Some i \<longrightarrow> pk r = Some i"
    using kept(4) pk by simp
  show ?thesis
    apply (intro conjI)
        apply (rule c1)
       apply (rule c2)
      apply (rule c3)
     apply (simp add: kept(3))
    apply (simp add: kept(3))
    done
next
  case (replaced r rid st1 ings res')
  from save_frame(3,4) [of st rnd k "set_attrs recipe p"] replaced(1)
  have fr: "recipe_tags st1 = recipe_tags st" "recipe_ingredients st1 = recipe_ingredients st"
    by simp_all
  have pk: "pk recipe = Some i \<Longrightarrow> pk r = Some i" for i
    using save_pk [OF replaced(1)] by simp
  let ?st2 = "case p_tags p of None \<Rightarrow> st1 | Some ts \<Rightarrow> tags_set st1 rid ts"
  have ri2: "recipe_ingredients ?st2 = recipe_ingredients st"
    using fr by (simp add: tags_set_frame split: option.splits)
  have del: "recipe_ingredients (delete_ingredient_in_recipe ?st2 rid)
      = filter (\<lambda>x. ri_recipe x \<noteq> rid) (recipe_ingredients st)"
    using ri2 by (simp add: delete_ingredient_in_recipe_def)
  from add_ingredients_rows [OF replaced(4)] obtain n where n: "n \<le> length ings"
    "recipe_ingredients st' = recipe_ingredients (delete_ingredient_in_recipe ?st2 rid)
        @ map (ingredient_row rid) (take n ings)"
    "res' = Inr () \<longrightarrow> n = length ings" by blast
  have rows: "recipe_ingredients st' = filter (\<lambda>x. ri_recipe x \<noteq> rid) (recipe_ingredients st)
        @ map (ingredient_row rid) (take n ings)"
    using n(2) del by simp
  have tags: "p_tags p = None \<Longrightarrow> recipe_tags st' = recipe_tags st"
    using add_ingredients_frameD(4) [OF replaced(4)] fr
    by (simp add: delete_ingredient_in_recipe_frame)
  have ok: "res = Inr r' \<Longrightarrow> r' = r \<and> n = length ings" for r'
    using replaced(5) n(3) by (cases res') auto
  have c1: "p_ingredients p = None \<longrightarrow> recipe_ingredients st' = recipe_ingredients st"
    using replaced(3) by simp
  have c2: "p_tags p = None \<longrightarrow> recipe_tags st' = recipe_tags st" using tags by simp
  have c3: "\<forall>r i. res = Inr r \<and> pk recipe = Some i \<longrightarrow> pk r = Some i"
    using ok pk by blast
  have c4: "\<forall>ings r rid. p_ingredients p = Some ings \<and> res = Inr r \<and> pk r = Some rid \<longrightarrow>
         recipe_ingredients st'
           = filter (\<lambda>x. ri_recipe x \<noteq> rid) (recipe_ingredients st)
             @ map (ingredient_row rid) ings"
  proof (intro allI impI)
    fix ings' r' rid'
    assume a: "p_ingredients p = Some ings' \<and> res = Inr r' \<and> pk r' = Some rid'"
    then have "ings' = ings" using replaced(3) by simp
    moreover from a ok have "r' = r" "n = length ings" by blast+
    moreover from this a replaced(2) have "rid' = rid" by simp
    ultimately show "recipe_ingredients st'
           = filter (\<lambda>x. ri_recipe x \<noteq> rid') (recipe_ingredients st)
             @ map (ingredient_row rid') ings'"
      using rows by simp
  qed
  have c5: "\<forall>ings. p_ingredients p = Some ings \<longrightarrow>
         recipe_ingredients st' = recipe_ingredients st
         \<or> (\<exists>rid n. n \<le> length ings
               \<and> recipe_ingredients st'
                   = filter (\<lambda>x. ri_recipe x \<noteq> rid) (recipe_ingredients st)
                     @ map (ingredient_row rid) (take n ings))"
    using rows n(1) replaced(3) by auto
  show ?thesis
    by (rule conjI [OF c1 conjI [OF c2 conjI [OF c3 conjI [OF c4 c5]]]])
qed

lemmas eval_defs = save_def Model_save_def insert_recipe_def has_pk_def example_store_def
      example_recipe_def update_def ModelSerializer_update_def set_attrs_def example_patch_def
      example_tags_patch_def tags_set_def
      delete_ingredient_in_recipe_def RecipeIngredient_objects_create_def ingredient_row_def
      create_def Recipe_objects_create_def new_recipe_def example_data_def
      get_short_link_def short_link_exists_def fresh_source_def stuck_source_def

text \<open>
  Claim C10. \<open>update\<close> succeeds whenever it starts from a recipe loaded from the store
  and the supplied ingredient list, if any, names existing ingredients without
  repetition, which is what \<open>validate\<close> lets through. When the validated data holds
  an ingredient list, the rows of the recipe in the \<open>RecipeIngredient\<close> table are then
  exactly the rows of the new list, in its order, and the rows of other recipes are as
  before; whatever the outcome, either the table is untouched or no earlier row of
  the recipe is left and a prefix of the new rows is there. When the ingredient list is
  omitted the table is unchanged, and when the tags are omitted the tag rows are
  unchanged; supplied tags become the tag set of the recipe. The updated recipe keeps
  its primary key.
\<close>

theorem update_replaces_ingredients:
  assumes "update st rnd k recipe p = (res, st', k')"
  shows "(p_ingredients p = None \<longrightarrow> recipe_ingredients st' = recipe_ingredients st)
   \<and> (p_tags p = None \<longrightarrow> recipe_tags st' = recipe_tags st)
   \<and> (\<forall>r i. res = Inr r \<and> pk recipe = Some i \<longrightarrow> pk r = Some i)
   \<and> (\<forall>ings r rid. p_ingredients p = Some ings \<and> res = Inr r \<and> pk r = Some rid \<longrightarrow>
         recipe_ingredients st'
           = filter (\<lambda>x. ri_recipe x \<noteq> rid) (recipe_ingredients st)
             @ map (ingredient_row rid) ings)
   \<and> (\<forall>ings. p_ingredients p = Some ings \<longrightarrow>
         recipe_ingredients st' = recipe_ingredients st
         \<or> (\<exists>rid n. n \<le> length ings
               \<and> recipe_ingredients st'
                   = filter (\<lambda>x. ri_recipe x \<noteq> rid) (recipe_ingredients st)
                     @ map (ingredient_row rid) (take n ings)))
   \<and> (\<forall>rid. persisted st recipe rid
          \<and> (\<forall>items. p_ingredients p = Some items \<longrightarrow>
                 distinct (map fst items) \<and> ingredients_exist st items) \<longrightarrow>
         res = Inr (set_attrs recipe p) \<and> k' = k
         \<and> recipes st' = map (\<lambda>r. if has_pk rid r then set_attrs recipe p else r) (recipes st)
         \<and> recipe_tags st'
             = (case p_tags p of None \<Rightarrow> recipe_tags st
                | Some ts \<Rightarrow> recipe_tags (tags_set st rid ts))
         \<and> recipe_ingredients st'
             = (case p_ingredients p of None \<Rightarrow> recipe_ingredients st
                | Some xs \<Rightarrow> filter (\<lambda>x. ri_recipe x \<noteq> rid) (recipe_ingredients st)
                            @ map (ingredient_row rid) xs))
   \<and> (\<forall>rid. validate p = Inr p \<and> persisted st recipe rid
          \<and> (\<forall>items. p_ingredients p = Some items \<longrightarrow> ingredients_exist st items) \<longrightarrow>
         (\<exists>items ts. p_ingredients p = Some items \<and> p_tags p = Some ts
            \<and> res = Inr (set_attrs recipe p)
            \<and> recipe_ingredients st'
                = filter (\<lambda>x. ri_recipe x \<noteq> rid) (recipe_ingredients st)
                  @ map (ingredient_row rid) items
            \<and> {t. (rid, t) \<in> set (recipe_tags st')} = set ts))"
proof -
  have ok: "res = Inr (set_attrs recipe p) \<and> k' = k
         \<and> recipes st' = map (\<lambda>r. if has_pk rid r then set_attrs recipe p else r) (recipes st)
         \<and> recipe_tags st'
             = (case p_tags p of None \<Rightarrow> recipe_tags st
                | Some ts \<Rightarrow> recipe_tags (tags_set st rid ts))
         \<and> recipe_ingredients st'
             = (case p_ingredients p of None \<Rightarrow> recipe_ingredients st
                | Some xs \<Rightarrow> filter (\<lambda>x. ri_recipe x \<noteq> rid) (recipe_ingredients st)
                            @ map (ingredient_row rid) xs)"
    if "persisted st recipe rid"
      and "\<forall>items. p_ingredients p = Some items \<longrightarrow>
             distinct (map fst items) \<and> ingredients_exist st items"
    for rid
  proof -
    have "\<exists>st''. update st rnd k recipe p = (Inr (set_attrs recipe p), st'', k)
       \<and> recipes st'' = map (\<lambda>r. if has_pk rid r then set_attrs recipe p else r) (recipes st)
       \<and> recipe_tags st''
           = (case p_tags p of None \<Rightarrow> recipe_tags st
              | Some ts \<Rightarrow> recipe_tags (tags_set st rid ts))
       \<and> recipe_ingredients st''
           = (case p_ingredients p of None \<Rightarrow> recipe_ingredients st
              | Some xs \<Rightarrow> filter (\<lambda>x. ri_recipe x \<noteq> rid) (recipe_ingredients st)
                          @ map (ingredient_row rid) xs)"
      by (rule update_persisted [OF that(1)]) (use that(2) in blast)
    with assms show ?thesis by auto
  qed
  have valid: "\<exists>items ts. p_ingredients p = Some items \<and> p_tags p = Some ts
            \<and> res = Inr (set_attrs recipe p)
            \<and> recipe_ingredients st'
                = filter (\<lambda>x. ri_recipe x \<noteq> rid) (recipe_ingredients st)
                  @ map (ingredient_row rid) items
            \<and> {t. (rid, t) \<in> set (recipe_tags st')} = set ts"
    if "validate p = Inr p" and "persisted st recipe rid"
      and "\<forall>items. p_ingredients p = Some items \<longrightarrow> ingredients_exist st items"
    for rid
  proof -
    from that(1) obtain items ts where v: "p_ingredients p = Some items"
      "distinct (map fst items)" "p_tags p = Some ts"
      unfolding validate_Inr by blast
    from v(1,2) that(3) have "\<forall>xs. p_ingredients p = Some xs \<longrightarrow>
        distinct (map fst xs) \<and> ingredients_exist st xs" by simp
    from ok [OF that(2) this] v(1,3)
    have "res = Inr (set_attrs recipe p)"
      and "recipe_tags st' = recipe_tags (tags_set st rid ts)"
      and "recipe_ingredients st'
          = filter (\<lambda>x. ri_recipe x \<noteq> rid) (recipe_ingredients st)
            @ map (ingredient_row rid) items"
      by simp_all
    with v(1,3) tags_set_result(1) [of rid st ts] show ?thesis by simp
  qed
  have c6: "\<forall>rid. persisted st recipe rid
          \<and> (\<forall>items. p_ingredients p = Some items \<longrightarrow>
                 distinct (map fst items) \<and> ingredients_exist st items) \<longrightarrow>
         res = Inr (set_attrs recipe p) \<and> k' = k
         \<and> recipes st' = map (\<lambda>r. if has_pk rid r then set_attrs recipe p else r) (recipes st)
         \<and> recipe_tags st'
             = (case p_tags p of None \<Rightarrow> recipe_tags st
                | Some ts \<Rightarrow> recipe_tags (tags_set st rid ts))
         \<and> recipe_ingredients st'
             = (case p_ingredients p of None \<Rightarrow> recipe_ingredients st
                | Some xs \<Rightarrow> filter (\<lambda>x. ri_recipe x \<noteq> rid) (recipe_ingredients st)
                            @ map (ingredient_row rid) xs)"
  proof (intro allI impI)
    fix rid
    assume "persisted st recipe rid
          \<and> (\<forall>items. p_ingredients p = Some items \<longrightarrow>
                 distinct (map fst items) \<and> ingredients_exist st items)"
    then show "res = Inr (set_attrs recipe p) \<and> k' = k
         \<and> recipes st' = map (\<lambda>r. if has_pk rid r then set_attrs recipe p else r) (recipes st)
         \<and> recipe_tags st'
             = (case p_tags p of None \<Rightarrow> recipe_tags st
                | Some ts \<Rightarrow> recipe_tags (tags_set st rid ts))
         \<and> recipe_ingredients st'
             = (case p_ingredients p of None \<Rightarrow> recipe_ingredients st
                | Some xs \<Rightarrow> filter (\<lambda>x. ri_recipe x \<noteq> rid) (recipe_ingredients st)
                            @ map (ingredient_row rid) xs)"
      using ok [of rid] by (elim conjE) assumption
  qed
  have c7: "\<forall>rid. validate p = Inr p \<and> persisted st recipe rid
          \<and> (\<forall>items. p_ingredients p = Some items \<longrightarrow> ingredients_exist st items) \<longrightarrow>
         (\<exists>items ts. p_ingredients p = Some items \<and> p_tags p = Some ts
            \<and> res = Inr (set_attrs recipe p)
            \<and> recipe_ingredients st'
                = filter (\<lambda>x. ri_recipe x \<noteq> rid) (recipe_ingredients st)
                  @ map (ingredient_row rid) items
            \<and> {t. (rid, t) \<in> set (recipe_tags st')} = set ts)"
  proof (intro allI impI)
    fix rid
    assume "validate p = Inr p \<and> persisted st recipe rid
          \<and> (\<forall>items. p_ingredients p = Some items \<longrightarrow> ingredients_exist st items)"
    then show "\<exists>items ts. p_ingredients p = Some items \<and> p_tags p = Some ts
            \<and> res = Inr (set_attrs recipe p)
            \<and> recipe_ingredients st'
                = filter (\<lambda>x. ri_recipe x \<noteq> rid) (recipe_ingredients st)
                  @ map (ingredient_row rid) items
            \<and> {t. (rid, t) \<in> set (recipe_tags st')} = set ts"
      using valid [of rid] by (elim conjE) assumption
  qed
  from update_outcomes [OF assms] c6 c7 show ?thesis
    apply (elim conjE)
    apply (intro conjI)
          apply assumption+
    done
qed

lemma draw_loop_fresh:
  "\<not> short_link_exists st (rnd k len) \<Longrightarrow> 0 < n \<Longrightarrow>
   draw_loop st rnd len n k = (Some (rnd k len), Suc k)"
  by (cases n) simp_all

lemma fresh_source_is_fresh: "\<not> short_link_exists example_store (fresh_source k len)"
  by (simp add: short_link_exists_def example_store_def fresh_source_def example_recipe_def)

lemma update_example:
  "fst (update example_store fresh_source 0 (example_recipe 1 ''cake'' ''aaaaaaaaaa'')
         example_patch) = Inr (example_recipe 1 ''tart'' ''aaaaaaaaaa'')"
  "recipe_ingredients (fst (snd (update example_store fresh_source 0
         (example_recipe 1 ''cake'' ''aaaaaaaaaa'') example_patch)))
       = [\<lparr>ri_recipe = 2, ri_ingredient = 1, amount = 300\<rparr>,
          \<lparr>ri_recipe = 2, ri_ingredient = 3, amount = 50\<rparr>,
          \<lparr>ri_recipe = 1, ri_ingredient = 3, amount = 70\<rparr>,
          \<lparr>ri_recipe = 1, ri_ingredient = 2, amount = 1\<rparr>]"
  "recipe_tags (fst (snd (update example_store fresh_source 0
         (example_recipe 1 ''cake'' ''aaaaaaaaaa'') example_patch)))
       = recipe_tags example_store"
  "recipe_ingredients (fst (snd (update example_store fresh_source 0
         (example_recipe 1 ''cake'' ''aaaaaaaaaa'') example_tags_patch)))
       = recipe_ingredients example_store"
  by (simp_all add: eval_defs)

lemma example_full_patch_valid: "validate example_full_patch = Inr example_full_patch"
  by (simp add: validate_def check_ingredients_def check_tags_def example_full_patch_def)

lemma example_partial_patches_refused:
  "validate example_patch = Inl (ValidationError Tags_required)"
  "validate example_tags_patch = Inl (ValidationError Ingredients_required)"
  by (simp_all add: validate_def check_ingredients_def check_tags_def example_patch_def
      example_tags_patch_def)

lemma example_persisted:
  "persisted example_store (example_recipe 1 ''cake'' ''aaaaaaaaaa'') 1"
  by (simp add: persisted_def example_store_def example_recipe_def has_pk_def)

lemma example_ingredients_exist: "ingredients_exist example_store [(3, 70), (2, 1)]"
  by (simp add: ingredients_exist_def example_store_def)

theorem update_replaces_ingredients_witness:
  "p_ingredients example_patch = Some [(3, 70), (2, 1)] \<and> p_tags example_patch = None
   \<and> fst (update example_store fresh_source 0 (example_recipe 1 ''cake'' ''aaaaaaaaaa'')
         example_patch) = Inr (example_recipe 1 ''tart'' ''aaaaaaaaaa'')
   \<and> recipe_ingredients (fst (snd (update example_store fresh_source 0
         (example_recipe 1 ''cake'' ''aaaaaaaaaa'') example_patch)))
       = [\<lparr>ri_recipe = 2, ri_ingredient = 1, amount = 300\<rparr>,
          \<lparr>ri_recipe = 2, ri_ingredient = 3, amount = 50\<rparr>,
          \<lparr>ri_recipe = 1, ri_ingredient = 3, amount = 70\<rparr>,
          \<lparr>ri_recipe = 1, ri_ingredient = 2, amount = 1\<rparr>]
   \<and> recipe_tags (fst (snd (update example_store fresh_source 0
         (example_recipe 1 ''cake'' ''aaaaaaaaaa'') example_patch)))
       = recipe_tags example_store
   \<and> p_ingredients example_tags_patch = None
   \<and> recipe_ingredients (fst (snd (update example_store fresh_source 0
         (example_recipe 1 ''cake'' ''aaaaaaaaaa'') example_tags_patch)))
       = recipe_ingredients example_store
   \<and> validate example_full_patch = Inr example_full_patch
   \<and> persisted example_store (example_recipe 1 ''cake'' ''aaaaaaaaaa'') 1
   \<and> ingredients_exist example_store [(3, 70), (2, 1)]
   \<and> fst (update example_store fresh_source 0 (example_recipe 1 ''cake'' ''aaaaaaaaaa'')
         example_full_patch) = Inr (example_recipe 1 ''tart'' ''aaaaaaaaaa'')
   \<and> recipe_ingredients (fst (snd (update example_store fresh_source 0
         (example_recipe 1 ''cake'' ''aaaaaaaaaa'') example_full_patch)))
       = [\<lparr>ri_recipe = 2, ri_ingredient = 1, amount = 300\<rparr>,
          \<lparr>ri_recipe = 2, ri_ingredient = 3, amount = 50\<rparr>,
          \<lparr>ri_recipe = 1, ri_ingredient = 3, amount = 70\<rparr>,
          \<lparr>ri_recipe = 1, ri_ingredient = 2, amount = 1\<rparr>]
   \<and> recipe_tags (fst (snd (update example_store fresh_source 0
         (example_recipe 1 ''cake'' ''aaaaaaaaaa'') example_full_patch)))
       = [(2, 1), (1, 2)]"
proof -
  let ?R = "example_recipe 1 ''cake'' ''aaaaaaaaaa''"
  let ?U = "update example_store fresh_source 0 ?R example_patch"
  let ?V = "update example_store fresh_source 0 ?R example_tags_patch"
  let ?W = "update example_store fresh_source 0 ?R example_full_patch"
  have U: "?U = (fst ?U, fst (snd ?U), snd (snd ?U))" by simp
  have V: "?V = (fst ?V, fst (snd ?V), snd (snd ?V))" by simp
  have W: "?W = (fst ?W, fst (snd ?W), snd (snd ?W))" by simp
  have p: "p_ingredients example_patch = Some [(3, 70), (2, 1)]" "p_tags example_patch = None"
    "p_ingredients example_tags_patch = None"
    by (simp_all add: example_patch_def example_tags_patch_def)
  have q: "p_ingredients example_full_patch = Some [(3, 70), (2, 1)]"
    "p_tags example_full_patch = Some [2]"
    "set_attrs ?R example_full_patch = example_recipe 1 ''tart'' ''aaaaaaaaaa''"
    by (simp_all add: example_full_patch_def set_attrs_def example_recipe_def)
  have pk: "pk (example_recipe 1 ''tart'' ''aaaaaaaaaa'') = Some 1"
    by (simp add: example_recipe_def)
  from update_replaces_ingredients [OF U] p(1,2) update_example(1) pk
  have u1: "recipe_ingredients (fst (snd ?U))
      = filter (\<lambda>x. ri_recipe x \<noteq> 1) (recipe_ingredients example_store)
        @ map (ingredient_row 1) [(3, 70), (2, 1)]"
    and u2: "recipe_tags (fst (snd ?U)) = recipe_tags example_store" by blast+
  from update_replaces_ingredients [OF V] p(3)
  have v1: "recipe_ingredients (fst (snd ?V)) = recipe_ingredients example_store" by blast
  have pre: "persisted example_store ?R 1
      \<and> (\<forall>items. p_ingredients example_full_patch = Some items \<longrightarrow>
             distinct (map fst items) \<and> ingredients_exist example_store items)"
    using example_persisted example_ingredients_exist q(1) by simp
  from update_replaces_ingredients [OF W] pre
  have w: "fst ?W = Inr (set_attrs ?R example_full_patch)
      \<and> recipe_tags (fst (snd ?W))
          = (case p_tags example_full_patch of None \<Rightarrow> recipe_tags example_store
             | Some ts \<Rightarrow> recipe_tags (tags_set example_store 1 ts))
      \<and> recipe_ingredients (fst (snd ?W))
          = (case p_ingredients example_full_patch of None \<Rightarrow> recipe_ingredients example_store
             | Some xs \<Rightarrow> filter (\<lambda>x. ri_recipe x \<noteq> 1) (recipe_ingredients example_store)
                         @ map (ingredient_row 1) xs)"
    by blast
  have rows: "filter (\<lambda>x. ri_recipe x \<noteq> 1) (recipe_ingredients example_store)
        @ map (ingredient_row 1) [(3, 70), (2, 1)]
      = [\<lparr>ri_recipe = 2, ri_ingredient = 1, amount = 300\<rparr>,
          \<lparr>ri_recipe = 2, ri_ingredient = 3, amount = 50\<rparr>,
          \<lparr>ri_recipe = 1, ri_ingredient = 3, amount = 70\<rparr>,
          \<lparr>ri_recipe = 1, ri_ingredient = 2, amount = 1\<rparr>]"
    by (simp add: example_store_def ingredient_row_def)
  have tags: "recipe_tags (tags_set example_store 1 [2]) = [(2, 1), (1, 2)]"
    by (simp add: tags_set_def example_store_def)
  have w1: "fst ?W = Inr (example_recipe 1 ''tart'' ''aaaaaaaaaa'')"
    by (simp only: w [THEN conjunct1] q(3))
  have w2: "recipe_tags (fst (snd ?W)) = [(2, 1), (1, 2)]"
    by (simp only: w [THEN conjunct2, THEN conjunct1] q(2) option.case tags)
  have w3: "recipe_ingredients (fst (snd ?W))
      = [\<lparr>ri_recipe = 2, ri_ingredient = 1, amount = 300\<rparr>,
          \<lparr>ri_recipe = 2, ri_ingredient = 3, amount = 50\<rparr>,
          \<lparr>ri_recipe = 1, ri_ingredient = 3, amount = 70\<rparr>,
          \<lparr>ri_recipe = 1, ri_ingredient = 2, amount = 1\<rparr>]"
    by (simp only: w [THEN conjunct2, THEN conjunct2] q(1) option.case rows)
  from u1 have u1': "recipe_ingredients (fst (snd ?U))
      = [\<lparr>ri_recipe = 2, ri_ingredient = 1, amount = 300\<rparr>,
          \<lparr>ri_recipe = 2, ri_ingredient = 3, amount = 50\<rparr>,
          \<lparr>ri_recipe = 1, ri_ingredient = 3, amount = 70\<rparr>,
          \<lparr>ri_recipe = 1, ri_ingredient = 2, amount = 1\<rparr>]"
    unfolding rows .
  from p update_example(1) u1' u2 v1 example_full_patch_valid example_persisted
    example_ingredients_exist w1 w3 w2
  show ?thesis by (intro conjI)
qed

section \<open>Creating a recipe\<close>

text \<open>
  Claim C2, as the code has it. \<open>create\<close> runs outside any transaction, so its steps
  are written one by one. When it fails, either the short link generation was exhausted
  (the \<open>ValueError\<close> of the first step) and the store is unchanged, or an insert of a
  \<open>RecipeIngredient\<close> row was rejected by the database, and then the new recipe row
  and the rows of the ingredients before the rejected one are in the store.
\<close>

theorem create_failure_leaves_rows:
  assumes "create st rnd k u d = (Inl e, st', k')"
  shows "(e = ValueError \<and> st' = st \<and> k' = k + 10)
     \<or> (\<exists>sl n c. e = IntegrityError c \<and> n < length (rd_ingredients d)
           \<and> recipes st'
               = recipes st @ [(new_recipe u d)\<lparr>short_link := sl, pk := Some (next_recipe_pk st)\<rparr>]
           \<and> recipe_tags st' = recipe_tags (tags_set st (next_recipe_pk st) (rd_tags d))
           \<and> recipe_ingredients st'
               = recipe_ingredients st
                 @ map (ingredient_row (next_recipe_pk st)) (take n (rd_ingredients d)))"
  using assms
proof (cases rule: create_cases)
  case (save_failed e')
  have new: "short_link (new_recipe u d) = []" "pk (new_recipe u d) = None"
    by (simp_all add: new_recipe_def)
  from save_failed(1) new show ?thesis
  proof (cases rule: save_new_cases)
    case exhausted
    with save_failed(2) show ?thesis by simp
  next
    case (inserted sl)
    then show ?thesis by simp
  qed
next
  case (unsaved r)
  have new: "short_link (new_recipe u d) = []" "pk (new_recipe u d) = None"
    by (simp_all add: new_recipe_def)
  from unsaved(1) new show ?thesis
  proof (cases rule: save_new_cases)
    case exhausted
    then show ?thesis by simp
  next
    case (inserted sl)
    with unsaved(2) show ?thesis by simp
  qed
next
  case (added r rid st1 res')
  have new: "short_link (new_recipe u d) = []" "pk (new_recipe u d) = None"
    by (simp_all add: new_recipe_def)
  from added(1) new show ?thesis
  proof (cases rule: save_new_cases)
    case exhausted
    then show ?thesis by simp
  next
    case (inserted sl)
    from inserted(2) added(2) have rid: "rid = next_recipe_pk st" by simp
    from inserted(3) have st1: "recipes st1
        = recipes st @ [(new_recipe u d)\<lparr>short_link := sl, pk := Some (next_recipe_pk st)\<rparr>]"
      "recipe_ingredients st1 = recipe_ingredients st" by simp_all
    from add_ingredients_rows [OF added(3)] obtain n where n:
      "recipe_ingredients st' = recipe_ingredients (tags_set st1 rid (rd_tags d))
           @ map (ingredient_row rid) (take n (rd_ingredients d))"
      "\<forall>e. res' = Inl e \<longrightarrow> n < length (rd_ingredients d) \<and> (\<exists>c. e = IntegrityError c)"
      by blast
    from added(4) have res': "res' = Inl e" by (cases res') simp_all
    with n(2) obtain c where c: "e = IntegrityError c" "n < length (rd_ingredients d)" by blast
    have "recipes st' = recipes st1"
      using add_ingredients_frameD(3) [OF added(3)] by (simp add: tags_set_frame)
    moreover from inserted(3) have "recipe_tags st1 = recipe_tags st" by simp
    then have "recipe_tags st' = recipe_tags (tags_set st rid (rd_tags d))"
      using add_ingredients_frameD(4) [OF added(3)] by (simp add: tags_set_def)
    ultimately show ?thesis using st1 n(1) rid c by (auto simp: tags_set_frame)
  qed
qed

text \<open>
  The creation data of the example names an ingredient without a row. The recipe
  row, its two tag rows and the row of the first ingredient stay in the store although
  \<open>create\<close> failed: the store is not the one before the call.
\<close>

theorem create_not_atomic_counterexample:
  "fst (create example_store fresh_source 0 1 example_data) = Inl (IntegrityError ''ingredient_id'')
   \<and> fst (snd (create example_store fresh_source 0 1 example_data)) \<noteq> example_store
   \<and> recipes (fst (snd (create example_store fresh_source 0 1 example_data)))
       = recipes example_store
         @ [(new_recipe 1 example_data)\<lparr>short_link := ''cccccccccc'', pk := Some 3\<rparr>]
   \<and> recipe_tags (fst (snd (create example_store fresh_source 0 1 example_data)))
       = recipe_tags example_store @ [(3, 1), (3, 2)]
   \<and> recipe_ingredients (fst (snd (create example_store fresh_source 0 1 example_data)))
       = recipe_ingredients example_store @ [\<lparr>ri_recipe = 3, ri_ingredient = 1, amount = 250\<rparr>]"
  by (simp add: eval_defs draw_loop_fresh)

theorem create_failure_leaves_rows_witness:
  "fst (create example_store fresh_source 0 1 example_data) = Inl (IntegrityError ''ingredient_id'')
   \<and> recipes (fst (snd (create example_store fresh_source 0 1 example_data)))
       = recipes example_store
         @ [(new_recipe 1 example_data)\<lparr>short_link := ''cccccccccc'', pk := Some 3\<rparr>]
   \<and> create example_store stuck_source 0 1 example_data = (Inl ValueError, example_store, 10)"
  using create_failure_leaves_rows [of example_store fresh_source 0 1 example_data
      "IntegrityError ''ingredient_id''"
      "fst (snd (create example_store fresh_source 0 1 example_data))"
      "snd (snd (create example_store fresh_source 0 1 example_data))"]
    create_failure_leaves_rows [of example_store stuck_source 0 1 example_data ValueError
      example_store 10]
    create_exhausted [where st = example_store and rnd = stuck_source and k = 0 and u = 1
      and d = example_data]
  by (simp add: eval_defs draw_loop_fresh stuck_source_collides)

section \<open>Short link resolution\<close>

lemma redirect_missing:
  "\<not> short_link_exists st sl \<Longrightarrow>
   redirect_to_recipe st base sl = Response 500 (Error_message Redirect_failed)"
  by (simp add: redirect_to_recipe_def short_link_exists_def list_ex_filter_Nil)

lemma redirect_found:
  "filter (\<lambda>r. short_link r = sl) (recipes st) = [r] \<Longrightarrow> pk r = Some i \<Longrightarrow>
   redirect_to_recipe st base sl =
     HttpResponseRedirect (base @ ''/recipes/'' @ string_of_nat i @ ''/'')"
  by (simp add: redirect_to_recipe_def build_absolute_uri_def str_pk_def)

lemma redirect_example:
  "redirect_to_recipe example_store ''http://foodgram.example'' ''bbbbbbbbbb''
     = HttpResponseRedirect ''http://foodgram.example/recipes/2/''"
  by (simp add: redirect_to_recipe_def example_store_def example_recipe_def
      build_absolute_uri_def str_pk_def string_of_nat.simps)

text \<open>
  Claim C1 at a link that no recipe of the example store has. \<open>get_object_or_404\<close>
  raises \<open>Http404\<close>, the \<open>except Exception\<close> clause that encloses the whole view
  catches it, and the response is the 500 of that clause: a server error, not the
  client error that the lookup raised.
\<close>

theorem redirect_unknown_link_is_500:
  "redirect_to_recipe example_store ''http://foodgram.example'' ''zzzzzzzzzz''
     = Response 500 (Error_message Redirect_failed)
   \<and> is_server_error
        (redirect_to_recipe example_store ''http://foodgram.example'' ''zzzzzzzzzz'')
   \<and> \<not> is_client_error
        (redirect_to_recipe example_store ''http://foodgram.example'' ''zzzzzzzzzz'')
   \<and> \<not> short_link_exists example_store ''zzzzzzzzzz''"
  by (simp add: redirect_to_recipe_def example_store_def example_recipe_def
      is_server_error_def is_client_error_def short_link_exists_def)

section \<open>Membership\<close>

lemma get_object_or_404_Inr: "get_object_or_404 xs = Inr x \<Longrightarrow> xs = [x]"
  by (cases xs rule: get_object_or_404.cases) simp_all

lemma get_user_or_404_Inr: "get_user_or_404 st i = Inr a \<Longrightarrow> a = i"
proof -
  assume "get_user_or_404 st i = Inr a"
  then have "filter (\<lambda>u. u = i) (users st) = [a]"
    unfolding get_user_or_404_def by (rule get_object_or_404_Inr)
  then have "a \<in> set (filter (\<lambda>u. u = i) (users st))" by simp
  then show "a = i" by simp
qed

lemma filter_none: "filter P xs = [] \<Longrightarrow> filter (\<lambda>x. \<not> P x) xs = xs"
  by (induction xs) (auto split: if_splits)

lemma list_ex_filter: "list_ex P xs \<longleftrightarrow> filter P xs \<noteq> []"
  by (induction xs) auto

subsection \<open>Favorite\<close>

lemma favorite_first:
  assumes "get_recipe_or_404 st i = Inr r" and "\<not> is_favorited st u i"
  shows "favorite st u i
     = (Response 201 (Recipe_data i),
        st\<lparr>favorites := favorites st @ [\<lparr>fav_user = u, fav_recipe = i\<rparr>]\<rparr>)"
  using assms
  by (simp add: favorite_def dispatch_def FavoriteSerializer_validate_def
      Favorite_objects_create_def)

lemma favorite_again:
  assumes "get_recipe_or_404 st i = Inr r" and "is_favorited st u i"
  shows "favorite st u i
     = (Response 400 (Error_detail (ValidationError Already_in_favorites)), st)"
  using assms
  by (simp add: favorite_def dispatch_def FavoriteSerializer_validate_def)

lemma delete_from_favorites_present:
  assumes "get_recipe_or_404 st i = Inr r" and "is_favorited st u i"
  shows "delete_from_favorites st u i
     = (Response 204 No_content,
        st\<lparr>favorites := filter (\<lambda>x. \<not> (fav_user x = u \<and> fav_recipe x = i)) (favorites st)\<rparr>)"
  using assms
  by (simp add: delete_from_favorites_def dispatch_def is_favorited_def list_ex_filter Let_def)

lemma delete_from_favorites_absent:
  assumes "get_recipe_or_404 st i = Inr r" and "\<not> is_favorited st u i"
  shows "delete_from_favorites st u i
     = (Response 400 (Error_detail (ValidationError Not_in_favorites)), st)"
proof -
  from assms(2)
  have none: "filter (\<lambda>x. fav_user x = u \<and> fav_recipe x = i) (favorites st) = []"
    by (simp add: is_favorited_def list_ex_filter)
  then have "filter (\<lambda>x. \<not> (fav_user x = u \<and> fav_recipe x = i)) (favorites st) = favorites st"
    by (rule filter_none)
  with none assms(1) show ?thesis
    by (simp add: delete_from_favorites_def dispatch_def Let_def)
qed

subsection \<open>ShoppingCart\<close>

lemma add_to_shopping_cart_first:
  assumes "get_recipe_or_404 st i = Inr r" and "\<not> is_in_shopping_cart st u i"
  shows "add_to_shopping_cart st u i
     = (Response 201 (Recipe_data i),
        st\<lparr>shopping_cart := shopping_cart st @ [\<lparr>cart_user = u, cart_recipe = i\<rparr>]\<rparr>)"
  using assms
  by (simp add: add_to_shopping_cart_def dispatch_def ShoppingCartSerializer_validate_def
      ShoppingCart_objects_create_def)

lemma add_to_shopping_cart_again:
  assumes "get_recipe_or_404 st i = Inr r" and "is_in_shopping_cart st u i"
  shows "add_to_shopping_cart st u i
     = (Response 400 (Error_detail (ValidationError Already_in_shopping_cart)), st)"
  using assms
  by (simp add: add_to_shopping_cart_def dispatch_def ShoppingCartSerializer_validate_def)

lemma delete_from_shopping_cart_present:
  assumes "get_recipe_or_404 st i = Inr r" and "is_in_shopping_cart st u i"
  shows "delete_from_shopping_cart st u i
     = (Response 204 No_content,
        st\<lparr>shopping_cart :=
             filter (\<lambda>x. \<not> (cart_user x = u \<and> cart_recipe x = i)) (shopping_cart st)\<rparr>)"
  using assms
  by (simp add: delete_from_shopping_cart_def dispatch_def is_in_shopping_cart_def
      list_ex_filter Let_def)

lemma delete_from_shopping_cart_absent:
  assumes "get_recipe_or_404 st i = Inr r" and "\<not> is_in_shopping_cart st u i"
  shows "delete_from_shopping_cart st u i
     = (Response 400 (Error_detail (ValidationError Not_in_shopping_cart)), st)"
proof -
  from assms(2)
  have none: "filter (\<lambda>x. cart_user x = u \<and> cart_recipe x = i) (shopping_cart st) = []"
    by (simp add: is_in_shopping_cart_def list_ex_filter)
  then have "filter (\<lambda>x. \<not> (cart_user x = u \<and> cart_recipe x = i)) (shopping_cart st)
      = shopping_cart st"
    by (rule filter_none)
  with none assms(1) show ?thesis
    by (simp add: delete_from_shopping_cart_def dispatch_def Let_def)
qed

subsection \<open>Subscription\<close>

lemma subscribe_first:
  assumes "get_user_or_404 st a = Inr a'" and "u \<noteq> a" and "\<not> is_subscribed st a u"
  shows "subscribe st u a
     = (Response 201 (User_data a),
        st\<lparr>subscriptions := subscriptions st @ [\<lparr>sub_author = a, sub_subscriber = u\<rparr>]\<rparr>)"
proof -
  from assms(1) have "a' = a" by (rule get_user_or_404_Inr)
  with assms show ?thesis
    by (simp add: subscribe_def dispatch_def SubscriptionSerializer_validate_def
        Subscription_objects_create_def)
qed

lemma subscribe_again:
  assumes "get_user_or_404 st a = Inr a'" and "u \<noteq> a" and "is_subscribed st a u"
  shows "subscribe st u a
     = (Response 400 (Error_detail (ValidationError Already_subscribed)), st)"
proof -
  from assms(1) have "a' = a" by (rule get_user_or_404_Inr)
  with assms show ?thesis
    by (simp add: subscribe_def dispatch_def SubscriptionSerializer_validate_def)
qed

lemma subscribe_self:
  assumes "get_user_or_404 st u = Inr a'"
  shows "subscribe st u u = (Response 400 (Error_detail (ValidationError Self_subscribe)), st)"
proof -
  from assms(1) have "a' = u" by (rule get_user_or_404_Inr)
  with assms show ?thesis
    by (simp add: subscribe_def dispatch_def SubscriptionSerializer_validate_def)
qed

lemma unsubscribe_present:
  assumes "get_user_or_404 st a = Inr a'" and "is_subscribed st a u"
  shows "unsubscribe st u a
     = (Response 204 No_content,
        st\<lparr>subscriptions :=
             filter (\<lambda>x. \<not> (sub_author x = a \<and> sub_subscriber x = u)) (subscriptions st)\<rparr>)"
proof -
  from assms(1) have "a' = a" by (rule get_user_or_404_Inr)
  with assms show ?thesis
    by (simp add: unsubscribe_def dispatch_def is_subscribed_def list_ex_filter Let_def)
qed

lemma unsubscribe_absent:
  assumes "get_user_or_404 st a = Inr a'" and "\<not> is_subscribed st a u"
  shows "unsubscribe st u a
     = (Response 400 (Error_detail (ValidationError Not_subscribed)), st)"
proof -
  from assms(1) have a: "a' = a" by (rule get_user_or_404_Inr)
  from assms(2)
  have none: "filter (\<lambda>x. sub_author x = a \<and> sub_subscriber x = u) (subscriptions st) = []"
    by (simp add: is_subscribed_def list_ex_filter)
  then have "filter (\<lambda>x. \<not> (sub_author x = a \<and> sub_subscriber x = u)) (subscriptions st)
      = subscriptions st"
    by (rule filter_none)
  with none assms(1) a show ?thesis
    by (simp add: unsubscribe_def dispatch_def Let_def)
qed

lemma example_targets:
  "get_recipe_or_404 example_store 2 = Inr (example_recipe 2 ''bread'' ''bbbbbbbbbb'')"
  "get_recipe_or_404 example_store 1 = Inr (example_recipe 1 ''cake'' ''aaaaaaaaaa'')"
  "get_user_or_404 example_store 1 = Inr 1"
  "get_user_or_404 example_store 2 = Inr 2"
  by (simp_all add: get_recipe_or_404_def get_user_or_404_def has_pk_def example_store_def
      example_recipe_def)

lemma example_memberships:
  "\<not> is_favorited example_store 2 2" "\<not> is_in_shopping_cart example_store 2 2"
  "\<not> is_subscribed example_store 1 2" "\<not> is_subscribed example_store 1 1"
  "is_favorited example_store 1 1" "is_in_shopping_cart example_store 1 2"
  "is_subscribed example_store 2 1"
  by (simp_all add: is_favorited_def is_in_shopping_cart_def is_subscribed_def
      example_store_def)

text \<open>
  Claim C6, as the code has it. For each of the three relations, an authenticated user
  and a target that the view resolves: when the pair has no row (and, for a
  subscription, the user is not the author), the add answers 201 and appends exactly one
  row of the pair, leaving the rest of the store as it is; the same add on the
  resulting store answers 400 with the "already there" \<open>ValidationError\<close> of the
  serializer and changes nothing, so the pair still has one row.
\<close>

theorem membership_add_once:
  "(get_recipe_or_404 st i = Inr r \<and> \<not> is_favorited st u i \<longrightarrow>
      favorite st u i
        = (Response 201 (Recipe_data i),
           st\<lparr>favorites := favorites st @ [\<lparr>fav_user = u, fav_recipe = i\<rparr>]\<rparr>)
      \<and> length (filter (\<lambda>x. fav_user x = u \<and> fav_recipe x = i)
            (favorites (snd (favorite st u i)))) = 1
      \<and> favorite (snd (favorite st u i)) u i
        = (Response 400 (Error_detail (ValidationError Already_in_favorites)),
           snd (favorite st u i)))
   \<and> (get_recipe_or_404 st i = Inr r \<and> \<not> is_in_shopping_cart st u i \<longrightarrow>
      add_to_shopping_cart st u i
        = (Response 201 (Recipe_data i),
           st\<lparr>shopping_cart := shopping_cart st @ [\<lparr>cart_user = u, cart_recipe = i\<rparr>]\<rparr>)
      \<and> length (filter (\<lambda>x. cart_user x = u \<and> cart_recipe x = i)
            (shopping_cart (snd (add_to_shopping_cart st u i)))) = 1
      \<and> add_to_shopping_cart (snd (add_to_shopping_cart st u i)) u i
        = (Response 400 (Error_detail (ValidationError Already_in_shopping_cart)),
           snd (add_to_shopping_cart st u i)))
   \<and> (get_user_or_404 st a = Inr a' \<and> u \<noteq> a \<and> \<not> is_subscribed st a u \<longrightarrow>
      subscribe st u a
        = (Response 201 (User_data a),
           st\<lparr>subscriptions := subscriptions st @ [\<lparr>sub_author = a, sub_subscriber = u\<rparr>]\<rparr>)
      \<and> length (filter (\<lambda>x. sub_author x = a \<and> sub_subscriber x = u)
            (subscriptions (snd (subscribe st u a)))) = 1
      \<and> subscribe (snd (subscribe st u a)) u a
        = (Response 400 (Error_detail (ValidationError Already_subscribed)),
           snd (subscribe st u a)))"
proof (intro conjI impI)
  assume h: "get_recipe_or_404 st i = Inr r \<and> \<not> is_favorited st u i"
  let ?st = "st\<lparr>favorites := favorites st @ [\<lparr>fav_user = u, fav_recipe = i\<rparr>]\<rparr>"
  from h have first: "favorite st u i = (Response 201 (Recipe_data i), ?st)"
    by (simp add: favorite_first)
  from h have none: "filter (\<lambda>x. fav_user x = u \<and> fav_recipe x = i) (favorites st) = []"
    by (simp add: is_favorited_def list_ex_filter)
  have r: "get_recipe_or_404 ?st i = Inr r" using h by (simp add: get_recipe_or_404_def)
  have f: "is_favorited ?st u i" by (simp add: is_favorited_def)
  show "favorite st u i = (Response 201 (Recipe_data i), ?st)" by (rule first)
  show "length (filter (\<lambda>x. fav_user x = u \<and> fav_recipe x = i)
            (favorites (snd (favorite st u i)))) = 1"
    using none by (simp add: first)
  show "favorite (snd (favorite st u i)) u i
        = (Response 400 (Error_detail (ValidationError Already_in_favorites)),
           snd (favorite st u i))"
    using favorite_again [OF r f] by (simp add: first)
next
  assume h: "get_recipe_or_404 st i = Inr r \<and> \<not> is_in_shopping_cart st u i"
  let ?st = "st\<lparr>shopping_cart := shopping_cart st @ [\<lparr>cart_user = u, cart_recipe = i\<rparr>]\<rparr>"
  from h have first: "add_to_shopping_cart st u i = (Response 201 (Recipe_data i), ?st)"
    by (simp add: add_to_shopping_cart_first)
  from h have none: "filter (\<lambda>x. cart_user x = u \<and> cart_recipe x = i) (shopping_cart st) = []"
    by (simp add: is_in_shopping_cart_def list_ex_filter)
  have r: "get_recipe_or_404 ?st i = Inr r" using h by (simp add: get_recipe_or_404_def)
  have f: "is_in_shopping_cart ?st u i" by (simp add: is_in_shopping_cart_def)
  show "add_to_shopping_cart st u i = (Response 201 (Recipe_data i), ?st)" by (rule first)
  show "length (filter (\<lambda>x. cart_user x = u \<and> cart_recipe x = i)
            (shopping_cart (snd (add_to_shopping_cart st u i)))) = 1"
    using none by (simp add: first)
  show "add_to_shopping_cart (snd (add_to_shopping_cart st u i)) u i
        = (Response 400 (Error_detail (ValidationError Already_in_shopping_cart)),
           snd (add_to_shopping_cart st u i))"
    using add_to_shopping_cart_again [OF r f] by (simp add: first)
next
  assume h: "get_user_or_404 st a = Inr a' \<and> u \<noteq> a \<and> \<not> is_subscribed st a u"
  let ?st = "st\<lparr>subscriptions := subscriptions st @ [\<lparr>sub_author = a, sub_subscriber = u\<rparr>]\<rparr>"
  from h have first: "subscribe st u a = (Response 201 (User_data a), ?st)"
    by (simp add: subscribe_first)
  from h have none: "filter (\<lambda>x. sub_author x = a \<and> sub_subscriber x = u) (subscriptions st) = []"
    by (simp add: is_subscribed_def list_ex_filter)
  have r: "get_user_or_404 ?st a = Inr a'" using h by (simp add: get_user_or_404_def)
  have f: "is_subscribed ?st a u" by (simp add: is_subscribed_def)
  from h have ne: "u \<noteq> a" by simp
  show "subscribe st u a = (Response 201 (User_data a), ?st)" by (rule first)
  show "length (filter (\<lambda>x. sub_author x = a \<and> sub_subscriber x = u)
            (subscriptions (snd (subscribe st u a)))) = 1"
    using none by (simp add: first)
  show "subscribe (snd (subscribe st u a)) u a
        = (Response 400 (Error_detail (ValidationError Already_subscribed)),
           snd (subscribe st u a))"
    using subscribe_again [OF r ne f] by (simp add: first)
qed

theorem membership_add_once_witness:
  "get_recipe_or_404 example_store 2 = Inr (example_recipe 2 ''bread'' ''bbbbbbbbbb'')
   \<and> get_user_or_404 example_store 1 = Inr 1 \<and> (2::nat) \<noteq> 1
   \<and> \<not> is_favorited example_store 2 2 \<and> \<not> is_in_shopping_cart example_store 2 2
   \<and> \<not> is_subscribed example_store 1 2
   \<and> fst (favorite example_store 2 2) = Response 201 (Recipe_data 2)
   \<and> fst (favorite (snd (favorite example_store 2 2)) 2 2)
       = Response 400 (Error_detail (ValidationError Already_in_favorites))
   \<and> fst (add_to_shopping_cart example_store 2 2) = Response 201 (Recipe_data 2)
   \<and> fst (add_to_shopping_cart (snd (add_to_shopping_cart example_store 2 2)) 2 2)
       = Response 400 (Error_detail (ValidationError Already_in_shopping_cart))
   \<and> fst (subscribe example_store 2 1) = Response 201 (User_data 1)
   \<and> fst (subscribe (snd (subscribe example_store 2 1)) 2 1)
       = Response 400 (Error_detail (ValidationError Already_subscribed))"
proof -
  note inst = membership_add_once [where st = example_store and i = 2 and u = 2 and a = 1
      and a' = 1 and r = "example_recipe 2 ''bread'' ''bbbbbbbbbb''"]
  have ne: "(2::nat) \<noteq> 1" by simp
  from inst example_targets(1) example_memberships(1)
  have f: "favorite example_store 2 2
      = (Response 201 (Recipe_data 2),
         example_store\<lparr>favorites := favorites example_store @ [\<lparr>fav_user = 2, fav_recipe = 2\<rparr>]\<rparr>)"
    "favorite (snd (favorite example_store 2 2)) 2 2
      = (Response 400 (Error_detail (ValidationError Already_in_favorites)),
         snd (favorite example_store 2 2))"
    by blast+
  from inst example_targets(1) example_memberships(2)
  have c: "add_to_shopping_cart example_store 2 2
      = (Response 201 (Recipe_data 2),
         example_store\<lparr>shopping_cart :=
            shopping_cart example_store @ [\<lparr>cart_user = 2, cart_recipe = 2\<rparr>]\<rparr>)"
    "add_to_shopping_cart (snd (add_to_shopping_cart example_store 2 2)) 2 2
      = (Response 400 (Error_detail (ValidationError Already_in_shopping_cart)),
         snd (add_to_shopping_cart example_store 2 2))"
    by blast+
  from inst example_targets(3) example_memberships(3) ne
  have s: "subscribe example_store 2 1
      = (Response 201 (User_data 1),
         example_store\<lparr>subscriptions :=
            subscriptions example_store @ [\<lparr>sub_author = 1, sub_subscriber = 2\<rparr>]\<rparr>)"
    "subscribe (snd (subscribe example_store 2 1)) 2 1
      = (Response 400 (Error_detail (ValidationError Already_subscribed)),
         snd (subscribe example_store 2 1))"
    by blast+
  have r1: "fst (favorite example_store 2 2) = Response 201 (Recipe_data 2)"
    by (simp only: f(1) fst_conv)
  have r2: "fst (favorite (snd (favorite example_store 2 2)) 2 2)
       = Response 400 (Error_detail (ValidationError Already_in_favorites))"
    by (simp only: f(2) fst_conv)
  have r3: "fst (add_to_shopping_cart example_store 2 2) = Response 201 (Recipe_data 2)"
    by (simp only: c(1) fst_conv)
  have r4: "fst (add_to_shopping_cart (snd (add_to_shopping_cart example_store 2 2)) 2 2)
       = Response 400 (Error_detail (ValidationError Already_in_shopping_cart))"
    by (simp only: c(2) fst_conv)
  have r5: "fst (subscribe example_store 2 1) = Response 201 (User_data 1)"
    by (simp only: s(1) fst_conv)
  have r6: "fst (subscribe (snd (subscribe example_store 2 1)) 2 1)
       = Response 400 (Error_detail (ValidationError Already_subscribed))"
    by (simp only: s(2) fst_conv)
  from r1 r2 r3 r4 r5 r6 example_targets(1,3) example_memberships(1,2,3) ne
  show ?thesis by blast
qed

text \<open>
  Claim C6 as stated covers every pair, but a user who subscribes to themselves is
  refused although the pair has no row: the serializer checks this before it looks for
  a duplicate.
\<close>

theorem self_subscription_counterexample:
  "get_user_or_404 example_store 1 = Inr 1 \<and> \<not> is_subscribed example_store 1 1
   \<and> subscribe example_store 1 1
       = (Response 400 (Error_detail (ValidationError Self_subscribe)), example_store)"
  using subscribe_self [OF example_targets(3)] example_targets(3) example_memberships(4)
  by simp

text \<open>
  Claim C7. For each of the three relations, an authenticated user and a target that
  the view resolves: when the pair has a row, the remove answers 204 and the store
  loses the rows of the pair and nothing else; when it has none, zero rows are deleted
  and the remove answers 400 with the "not there" \<open>ValidationError\<close> of the view (the
  spec's NotFound), the store being unchanged. The two answers differ, so a caller can
  tell "removed" from "already absent".
\<close>

theorem membership_remove:
  "(get_recipe_or_404 st i = Inr r \<and> is_favorited st u i \<longrightarrow>
      delete_from_favorites st u i
        = (Response 204 No_content,
           st\<lparr>favorites :=
                filter (\<lambda>x. \<not> (fav_user x = u \<and> fav_recipe x = i)) (favorites st)\<rparr>)
      \<and> \<not> is_favorited (snd (delete_from_favorites st u i)) u i)
   \<and> (get_recipe_or_404 st i = Inr r \<and> \<not> is_favorited st u i \<longrightarrow>
      delete_from_favorites st u i
        = (Response 400 (Error_detail (ValidationError Not_in_favorites)), st))
   \<and> (get_recipe_or_404 st i = Inr r \<and> is_in_shopping_cart st u i \<longrightarrow>
      delete_from_shopping_cart st u i
        = (Response 204 No_content,
           st\<lparr>shopping_cart :=
                filter (\<lambda>x. \<not> (cart_user x = u \<and> cart_recipe x = i)) (shopping_cart st)\<rparr>)
      \<and> \<not> is_in_shopping_cart (snd (delete_from_shopping_cart st u i)) u i)
   \<and> (get_recipe_or_404 st i = Inr r \<and> \<not> is_in_shopping_cart st u i \<longrightarrow>
      delete_from_shopping_cart st u i
        = (Response 400 (Error_detail (ValidationError Not_in_shopping_cart)), st))
   \<and> (get_user_or_404 st a = Inr a' \<and> is_subscribed st a u \<longrightarrow>
      unsubscribe st u a
        = (Response 204 No_content,
           st\<lparr>subscriptions :=
                filter (\<lambda>x. \<not> (sub_author x = a \<and> sub_subscriber x = u)) (subscriptions st)\<rparr>)
      \<and> \<not> is_subscribed (snd (unsubscribe st u a)) a u)
   \<and> (get_user_or_404 st a = Inr a' \<and> \<not> is_subscribed st a u \<longrightarrow>
      unsubscribe st u a
        = (Response 400 (Error_detail (ValidationError Not_subscribed)), st))"
proof (intro conjI impI)
  assume h: "get_recipe_or_404 st i = Inr r \<and> is_favorited st u i"
  then show "delete_from_favorites st u i
        = (Response 204 No_content,
           st\<lparr>favorites :=
                filter (\<lambda>x. \<not> (fav_user x = u \<and> fav_recipe x = i)) (favorites st)\<rparr>)"
    by (simp add: delete_from_favorites_present)
  then show "\<not> is_favorited (snd (delete_from_favorites st u i)) u i"
    by (simp add: is_favorited_def list_ex_iff)
next
  assume "get_recipe_or_404 st i = Inr r \<and> \<not> is_favorited st u i"
  then show "delete_from_favorites st u i
        = (Response 400 (Error_detail (ValidationError Not_in_favorites)), st)"
    by (simp add: delete_from_favorites_absent)
next
  assume h: "get_recipe_or_404 st i = Inr r \<and> is_in_shopping_cart st u i"
  then show "delete_from_shopping_cart st u i
        = (Response 204 No_content,
           st\<lparr>shopping_cart :=
                filter (\<lambda>x. \<not> (cart_user x = u \<and> cart_recipe x = i)) (shopping_cart st)\<rparr>)"
    by (simp add: delete_from_shopping_cart_present)
  then show "\<not> is_in_shopping_cart (snd (delete_from_shopping_cart st u i)) u i"
    by (simp add: is_in_shopping_cart_def list_ex_iff)
next
  assume "get_recipe_or_404 st i = Inr r \<and> \<not> is_in_shopping_cart st u i"
  then show "delete_from_shopping_cart st u i
        = (Response 400 (Error_detail (ValidationError Not_in_shopping_cart)), st)"
    by (simp add: delete_from_shopping_cart_absent)
next
  assume h: "get_user_or_404 st a = Inr a' \<and> is_subscribed st a u"
  then show "unsubscribe st u a
        = (Response 204 No_content,
           st\<lparr>subscriptions :=
                filter (\<lambda>x. \<not> (sub_author x = a \<and> sub_subscriber x = u)) (subscriptions st)\<rparr>)"
    by (simp add: unsubscribe_present)
  then show "\<not> is_subscribed (snd (unsubscribe st u a)) a u"
    by (simp add: is_subscribed_def list_ex_iff)
next
  assume "get_user_or_404 st a = Inr a' \<and> \<not> is_subscribed st a u"
  then show "unsubscribe st u a
        = (Response 400 (Error_detail (ValidationError Not_subscribed)), st)"
    by (simp add: unsubscribe_absent)
qed

theorem membership_remove_witness:
  "get_recipe_or_404 example_store 1 = Inr (example_recipe 1 ''cake'' ''aaaaaaaaaa'')
   \<and> get_recipe_or_404 example_store 2 = Inr (example_recipe 2 ''bread'' ''bbbbbbbbbb'')
   \<and> get_user_or_404 example_store 2 = Inr 2
   \<and> is_favorited example_store 1 1 \<and> \<not> is_favorited example_store 2 2
   \<and> is_in_shopping_cart example_store 1 2 \<and> \<not> is_in_shopping_cart example_store 2 2
   \<and> is_subscribed example_store 2 1 \<and> \<not> is_subscribed example_store 2 2
   \<and> delete_from_favorites example_store 1 1
       = (Response 204 No_content, example_store\<lparr>favorites := []\<rparr>)
   \<and> delete_from_favorites example_store 2 2
       = (Response 400 (Error_detail (ValidationError Not_in_favorites)), example_store)
   \<and> delete_from_shopping_cart example_store 1 2
       = (Response 204 No_content,
          example_store\<lparr>shopping_cart := [\<lparr>cart_user = 1, cart_recipe = 1\<rparr>]\<rparr>)
   \<and> delete_from_shopping_cart example_store 2 2
       = (Response 400 (Error_detail (ValidationError Not_in_shopping_cart)), example_store)
   \<and> unsubscribe example_store 1 2
       = (Response 204 No_content, example_store\<lparr>subscriptions := []\<rparr>)
   \<and> unsubscribe example_store 2 2
       = (Response 400 (Error_detail (ValidationError Not_subscribed)), example_store)"
proof -
  have more: "\<not> is_subscribed example_store 2 2"
    by (simp add: is_subscribed_def example_store_def)
  have tabs: "favorites example_store = [\<lparr>fav_user = 1, fav_recipe = 1\<rparr>]"
    "shopping_cart example_store
       = [\<lparr>cart_user = 1, cart_recipe = 1\<rparr>, \<lparr>cart_user = 1, cart_recipe = 2\<rparr>]"
    "subscriptions example_store = [\<lparr>sub_author = 2, sub_subscriber = 1\<rparr>]"
    by (simp_all add: example_store_def)
  from membership_remove [where st = example_store and i = 1 and u = 1 and a = 2
      and a' = 2 and r = "example_recipe 1 ''cake'' ''aaaaaaaaaa''"]
    membership_remove [where st = example_store and i = 2 and u = 1 and a = 2
      and a' = 2 and r = "example_recipe 2 ''bread'' ''bbbbbbbbbb''"]
    membership_remove [where st = example_store and i = 2 and u = 2 and a = 2
      and a' = 2 and r = "example_recipe 2 ''bread'' ''bbbbbbbbbb''"]
    example_targets example_memberships more tabs
  show ?thesis by simp
qed

section \<open>The subscription invariant\<close>

lemma create_subscriptions:
  "subscriptions (fst (snd (create st rnd k u d))) = subscriptions st"
proof -
  obtain res st' k' where c: "create st rnd k u d = (res, st', k')"
    by (cases "create st rnd k u d") auto
  then have "subscriptions st' = subscriptions st"
  proof (cases rule: create_cases)
    case (save_failed e)
    with save_frame(5) [of st rnd k "new_recipe u d"] show ?thesis by simp
  next
    case (unsaved r)
    with save_frame(5) [of st rnd k "new_recipe u d"] show ?thesis by simp
  next
    case (added r rid st1 res')
    from save_frame(5) [of st rnd k "new_recipe u d"] added(1)
    have "subscriptions st1 = subscriptions st" by simp
    with add_ingredients_frameD(5) [OF added(3)] show ?thesis by (simp add: tags_set_frame)
  qed
  with c show ?thesis by simp
qed

lemma update_subscriptions:
  "subscriptions (fst (snd (update st rnd k r p))) = subscriptions st"
proof -
  obtain res st' k' where c: "update st rnd k r p = (res, st', k')"
    by (cases "update st rnd k r p") auto
  then have "subscriptions st' = subscriptions st"
  proof (cases rule: update_cases)
    case (save_failed e)
    with save_frame(5) [of st rnd k "set_attrs r p"] show ?thesis by simp
  next
    case (unsaved r')
    with save_frame(5) [of st rnd k "set_attrs r p"] show ?thesis by simp
  next
    case (kept r' rid st1)
    from save_frame(5) [of st rnd k "set_attrs r p"] kept(1)
    have "subscriptions st1 = subscriptions st" by simp
    with kept(5) show ?thesis by (cases "p_tags p") (simp_all add: tags_set_frame)
  next
    case (replaced r' rid st1 ings res')
    from save_frame(5) [of st rnd k "set_attrs r p"] replaced(1)
    have "subscriptions st1 = subscriptions st" by simp
    with add_ingredients_frameD(5) [OF replaced(4)] show ?thesis
      by (cases "p_tags p") (simp_all add: tags_set_frame delete_ingredient_in_recipe_frame)
  qed
  with c show ?thesis by simp
qed

lemma other_views_subscriptions:
  "subscriptions (snd (favorite st u i)) = subscriptions st"
  "subscriptions (snd (delete_from_favorites st u i)) = subscriptions st"
  "subscriptions (snd (add_to_shopping_cart st u i)) = subscriptions st"
  "subscriptions (snd (delete_from_shopping_cart st u i)) = subscriptions st"
  "subscriptions (snd (Favorite_objects_create st f)) = subscriptions st"
  "subscriptions (snd (ShoppingCart_objects_create st c)) = subscriptions st"
  by (simp_all add: favorite_def delete_from_favorites_def add_to_shopping_cart_def
      delete_from_shopping_cart_def dispatch_def FavoriteSerializer_validate_def
      ShoppingCartSerializer_validate_def Favorite_objects_create_def
      ShoppingCart_objects_create_def Let_def split: sum.splits)

lemma Subscription_objects_create_invariant:
  "no_self_subscription st \<Longrightarrow>
   no_self_subscription (snd (Subscription_objects_create st row))"
  by (simp add: Subscription_objects_create_def no_self_subscription_def)

lemma Subscription_objects_create_self:
  "Subscription_objects_create st \<lparr>sub_author = u, sub_subscriber = u\<rparr>
     = (Inl (IntegrityError ''self_subscribe''), st)"
  by (simp add: Subscription_objects_create_def)

lemma subscribe_invariant:
  "no_self_subscription st \<Longrightarrow> no_self_subscription (snd (subscribe st u i))"
  by (auto simp: subscribe_def dispatch_def SubscriptionSerializer_validate_def
      Subscription_objects_create_def no_self_subscription_def split: sum.splits)

lemma unsubscribe_invariant:
  "no_self_subscription st \<Longrightarrow> no_self_subscription (snd (unsubscribe st u i))"
  by (auto simp: unsubscribe_def dispatch_def no_self_subscription_def Let_def list_all_iff
      split: sum.splits)

lemma subscribe_self_store: "snd (subscribe st u u) = st"
  by (auto simp: subscribe_def dispatch_def SubscriptionSerializer_validate_def
      dest: get_user_or_404_Inr split: sum.splits)

lemma reachable_no_self_subscription:
  "reachable st \<Longrightarrow> no_self_subscription st"
proof (induction rule: reachable.induct)
  case initial
  show ?case by (simp add: no_self_subscription_def empty_store_def)
next
  case (new_user st u)
  then show ?case by (simp add: no_self_subscription_def)
next
  case (new_ingredient st i)
  then show ?case by (simp add: no_self_subscription_def)
next
  case (recipe_created st rnd k u d)
  then show ?case by (simp add: no_self_subscription_def create_subscriptions)
next
  case (recipe_updated st rnd k r p)
  then show ?case by (simp add: no_self_subscription_def update_subscriptions)
next
  case (subscribed st u i)
  from subscribed.IH show ?case by (rule subscribe_invariant)
next
  case (unsubscribed st u i)
  from unsubscribed.IH show ?case by (rule unsubscribe_invariant)
next
  case (favorited st u i)
  then show ?case by (simp add: no_self_subscription_def other_views_subscriptions)
next
  case (unfavorited st u i)
  then show ?case by (simp add: no_self_subscription_def other_views_subscriptions)
next
  case (carted st u i)
  then show ?case by (simp add: no_self_subscription_def other_views_subscriptions)
next
  case (uncarted st u i)
  then show ?case by (simp add: no_self_subscription_def other_views_subscriptions)
next
  case (model_insert_subscription st row)
  from model_insert_subscription.IH show ?case
    by (rule Subscription_objects_create_invariant)
next
  case (model_insert_favorite st f)
  then show ?case by (simp add: no_self_subscription_def other_views_subscriptions)
next
  case (model_insert_shopping_cart st c)
  then show ?case by (simp add: no_self_subscription_def other_views_subscriptions)
qed

text \<open>
  Claim C8. No reachable store has a subscription row whose subscriber is its author.
  The view refuses a user who subscribes to themselves with the \<open>ValidationError\<close>
  of the serializer (the spec's SelfReference) and leaves the store as it is, and the
  table itself refuses such a row by its check constraint \<open>self_subscribe\<close>,
  whoever inserts it.
\<close>

theorem no_self_subscription_invariant:
  "(reachable st \<longrightarrow> no_self_subscription st)
   \<and> (get_user_or_404 st u = Inr a \<longrightarrow>
        subscribe st u u = (Response 400 (Error_detail (ValidationError Self_subscribe)), st))
   \<and> snd (subscribe st u u) = st
   \<and> Subscription_objects_create st \<lparr>sub_author = u, sub_subscriber = u\<rparr>
        = (Inl (IntegrityError ''self_subscribe''), st)"
  by (simp add: reachable_no_self_subscription subscribe_self subscribe_self_store
      Subscription_objects_create_self)

lemma reachable_two_users: "reachable two_users"
proof -
  have "reachable ((empty_store\<lparr>users := users empty_store @ [1]\<rparr>)
      \<lparr>users := users (empty_store\<lparr>users := users empty_store @ [1]\<rparr>) @ [2]\<rparr>)"
    by (intro reachable.new_user reachable.initial)
  then show ?thesis by (simp add: two_users_def empty_store_def)
qed

lemma subscribe_two_users:
  "subscribe two_users 1 2
     = (Response 201 (User_data 2),
        two_users\<lparr>subscriptions := [\<lparr>sub_author = 2, sub_subscriber = 1\<rparr>]\<rparr>)"
  by (simp add: subscribe_def dispatch_def SubscriptionSerializer_validate_def
      Subscription_objects_create_def get_user_or_404_def is_subscribed_def two_users_def
      empty_store_def)

theorem no_self_subscription_invariant_witness:
  "reachable (snd (subscribe two_users 1 2))
   \<and> subscriptions (snd (subscribe two_users 1 2)) = [\<lparr>sub_author = 2, sub_subscriber = 1\<rparr>]
   \<and> no_self_subscription (snd (subscribe two_users 1 2))
   \<and> get_user_or_404 two_users 1 = Inr 1
   \<and> subscribe two_users 1 1
       = (Response 400 (Error_detail (ValidationError Self_subscribe)), two_users)"
proof -
  have r: "reachable (snd (subscribe two_users 1 2))"
    by (rule reachable.subscribed [OF reachable_two_users])
  have u: "get_user_or_404 two_users 1 = Inr 1"
    by (simp add: get_user_or_404_def two_users_def empty_store_def)
  from no_self_subscription_invariant [of "snd (subscribe two_users 1 2)"] r
  have i: "no_self_subscription (snd (subscribe two_users 1 2))" by blast
  from no_self_subscription_invariant [of two_users 1 1] u
  have s: "subscribe two_users 1 1
       = (Response 400 (Error_detail (ValidationError Self_subscribe)), two_users)" by blast
  have t: "subscriptions (snd (subscribe two_users 1 2))
      = [\<lparr>sub_author = 2, sub_subscriber = 1\<rparr>]"
    unfolding subscribe_two_users by simp
  from r t i u s show ?thesis by blast
qed

section \<open>The shopping list\<close>

lemma keys_add_to_group:
  "set (map fst (add_to_group k a gs)) = insert k (set (map fst gs))"
  by (induction gs) auto

lemma distinct_add_to_group:
  "distinct (map fst gs) \<Longrightarrow> distinct (map fst (add_to_group k a gs))"
proof (induction gs)
  case Nil
  then show ?case by simp
next
  case (Cons g gs)
  then show ?case using keys_add_to_group [of k a gs] by auto
qed

lemma total_add_to_group:
  "total k' (add_to_group k a gs) = total k' gs + (if k' = k then a else 0)"
  by (induction gs) (auto simp: total_def)

lemma foldl_groups:
  "set (map fst (foldl (\<lambda>gs row. add_to_group (fst row) (snd row) gs) acc rows))
     = set (map fst acc) \<union> set (map fst rows)
   \<and> (distinct (map fst acc) \<longrightarrow>
        distinct (map fst (foldl (\<lambda>gs row. add_to_group (fst row) (snd row) gs) acc rows)))
   \<and> total k (foldl (\<lambda>gs row. add_to_group (fst row) (snd row) gs) acc rows)
     = total k acc + total k rows"
proof (induction rows arbitrary: acc)
  case Nil
  show ?case by (simp add: total_def)
next
  case (Cons row rows)
  let ?acc = "add_to_group (fst row) (snd row) acc"
  note ih = Cons.IH [of ?acc]
  have t: "total k (row # rows) = (if k = fst row then snd row else 0) + total k rows"
    by (auto simp: total_def)
  show ?case
    using ih keys_add_to_group [of "fst row" "snd row" acc]
      distinct_add_to_group [of acc "fst row" "snd row"]
      total_add_to_group [of k "fst row" "snd row" acc] t
    by auto
qed

lemma group_sum_keys: "set (map fst (group_sum rows)) = set (map fst rows)"
  using foldl_groups [of "[]" rows] by (simp add: group_sum_def)

lemma group_sum_distinct: "distinct (map fst (group_sum rows))"
  using foldl_groups [of "[]" rows] by (simp add: group_sum_def)

lemma group_sum_total: "total k (group_sum rows) = total k rows"
  using foldl_groups [of "[]" rows k] by (simp add: group_sum_def total_def)

lemma total_distinct:
  "distinct (map fst gs) \<Longrightarrow> g \<in> set gs \<Longrightarrow> total (fst g) gs = snd g"
proof (induction gs)
  case Nil
  then show ?case by simp
next
  case (Cons x gs)
  show ?case
  proof (cases "g = x")
    case True
    from Cons.prems(1) have "fst x \<notin> fst ` set gs" by simp
    then have "filter (\<lambda>y. fst y = fst x) gs = []"
      unfolding filter_empty_conv by (metis imageI)
    with True show ?thesis by (simp add: total_def)
  next
    case False
    with Cons.prems have in_gs: "g \<in> set gs" and "fst x \<noteq> fst g" by auto
    with Cons.IH Cons.prems(1) show ?thesis by (simp add: total_def)
  qed
qed

lemma group_sum_entry:
  "g \<in> set (group_sum rows) \<Longrightarrow> snd g = total (fst g) rows"
  using total_distinct [OF group_sum_distinct, of g rows] group_sum_total [of "fst g" rows]
  by simp

lemma group_sum_Nil_iff: "group_sum rows = [] \<longleftrightarrow> rows = []"
  using group_sum_keys [of rows] by (metis map_is_Nil_conv set_empty)

lemma concat_map_if:
  "concat (map (\<lambda>x. if P x then f x else []) xs) = concat (map f (filter P xs))"
  by (induction xs) auto

lemma filter_key_find:
  "distinct (map f xs) \<Longrightarrow>
   filter (\<lambda>x. f x = k) xs = (case find (\<lambda>x. f x = k) xs of None \<Rightarrow> [] | Some x \<Rightarrow> [x])"
proof (induction xs)
  case Nil
  then show ?case by simp
next
  case (Cons x xs)
  show ?case
  proof (cases "f x = k")
    case True
    with Cons.prems have "k \<notin> f ` set xs" by auto
    then have "filter (\<lambda>y. f y = k) xs = []"
      unfolding filter_empty_conv by (metis imageI)
    with True show ?thesis by simp
  next
    case False
    with Cons show ?thesis by simp
  qed
qed

lemma filter_eq_distinct:
  "distinct xs \<Longrightarrow> filter (\<lambda>x. x = y) xs = (if y \<in> set xs then [y] else [])"
  by (induction xs) auto

lemma cart_filter:
  assumes "distinct (shopping_cart st)"
  shows "filter (\<lambda>sc. cart_recipe sc = r \<and> cart_user sc = u) (shopping_cart st)
     = (if is_in_shopping_cart st u r then [\<lparr>cart_user = u, cart_recipe = r\<rparr>] else [])"
proof -
  have e: "(\<lambda>sc. cart_recipe sc = r \<and> cart_user sc = u)
      = (\<lambda>sc. sc = \<lparr>cart_user = u, cart_recipe = r\<rparr>)"
    by (rule ext) auto
  have p: "(cart_user sc = u \<and> cart_recipe sc = r) = (sc = \<lparr>cart_user = u, cart_recipe = r\<rparr>)"
    for sc :: shopping_cart_row
    by auto
  have m: "is_in_shopping_cart st u r \<longleftrightarrow> \<lparr>cart_user = u, cart_recipe = r\<rparr> \<in> set (shopping_cart st)"
    unfolding is_in_shopping_cart_def list_ex_iff p by simp
  show ?thesis unfolding e using filter_eq_distinct [OF assms] m by simp
qed

lemma recipe_filter:
  assumes "distinct (map pk (recipes st))" and "list_ex (has_pk i) (recipes st)"
  shows "\<exists>r. filter (has_pk i) (recipes st) = [r]"
proof -
  have e: "has_pk i = (\<lambda>r. pk r = Some i)" by (rule ext) (simp add: has_pk_def)
  from assms(2) obtain r where "r \<in> set (recipes st)" "pk r = Some i"
    by (auto simp: list_ex_iff has_pk_def)
  then have "find (\<lambda>r. pk r = Some i) (recipes st) \<noteq> None"
    by (auto simp: find_None_iff)
  then show ?thesis
    unfolding e using filter_key_find [OF assms(1), of "Some i"] by auto
qed

lemma cart_rows_integrity:
  assumes "integrity st"
  shows "cart_rows st user = rows_of_cart st user"
proof -
  from assms have d: "distinct (map pk (recipes st))"
    "distinct (map ingredient_pk (ingredients st))" "distinct (shopping_cart st)"
    and fk: "\<And>ri. ri \<in> set (recipe_ingredients st) \<Longrightarrow> list_ex (has_pk (ri_recipe ri)) (recipes st)"
    by (auto simp: integrity_def list_all_iff)
  let ?ing = "\<lambda>ri::recipe_ingredient. case find (\<lambda>x. ingredient_pk x = ri_ingredient ri) (ingredients st) of
                          None \<Rightarrow> []
                        | Some x \<Rightarrow> [((ingredient_name x, measurement_unit x), amount ri)]"
  have ing: "concat (map (\<lambda>i. if ingredient_pk i = ri_ingredient ri
                 then [((ingredient_name i, measurement_unit i), amount ri)] else [])
               (ingredients st)) = ?ing ri" for ri
    unfolding concat_map_if filter_key_find [OF d(2)]
    by (simp split: option.splits)
  have cart: "concat (map (\<lambda>sc. if cart_recipe sc = ri_recipe ri \<and> cart_user sc = user
                 then ?ing ri else []) (shopping_cart st))
      = (if is_in_shopping_cart st user (ri_recipe ri) then ?ing ri else [])" for ri
    unfolding concat_map_if cart_filter [OF d(3)] by simp
  have rec: "concat (map (\<lambda>r. if has_pk (ri_recipe ri) r
                 then (if is_in_shopping_cart st user (ri_recipe ri) then ?ing ri else [])
                 else []) (recipes st))
      = (if is_in_shopping_cart st user (ri_recipe ri) then ?ing ri else [])"
    if "ri \<in> set (recipe_ingredients st)" for ri
  proof -
    from recipe_filter [OF d(1) fk [OF that]] obtain r where
      "filter (has_pk (ri_recipe ri)) (recipes st) = [r]" ..
    then show ?thesis unfolding concat_map_if by simp
  qed
  have "cart_rows st user
      = concat (map (\<lambda>ri. concat (map (\<lambda>r. if has_pk (ri_recipe ri) r
                 then (if is_in_shopping_cart st user (ri_recipe ri) then ?ing ri else [])
                 else []) (recipes st))) (recipe_ingredients st))"
    unfolding cart_rows_def ing cart ..
  also have "\<dots> = concat (map (\<lambda>ri. if is_in_shopping_cart st user (ri_recipe ri)
                 then ?ing ri else []) (recipe_ingredients st))"
    by (rule arg_cong [where f = concat]) (simp add: rec cong: map_cong)
  also have "\<dots> = rows_of_cart st user"
    unfolding concat_map_if rows_of_cart_def ..
  finally show ?thesis .
qed

lemma cart_rows_empty_cart:
  "\<not> list_ex (\<lambda>c. cart_user c = user) (shopping_cart st) \<Longrightarrow> cart_rows st user = []"
  by (auto simp: cart_rows_def list_ex_iff)

lemma queryset_facts:
  assumes "mset rs = mset (ingredients_query st user)"
  shows "rs = [] \<longleftrightarrow> cart_rows st user = []"
    and "distinct (map fst rs)"
    and "set (map fst rs) = set (map fst (cart_rows st user))"
    and "list_all (\<lambda>g. snd g = total (fst g) (cart_rows st user)) rs"
proof -
  from assms have s: "set rs = set (ingredients_query st user)" by (rule mset_eq_setD)
  from assms have "rs = [] \<longleftrightarrow> ingredients_query st user = []"
    by (metis mset_zero_iff)
  then show "rs = [] \<longleftrightarrow> cart_rows st user = []"
    by (simp add: ingredients_query_def group_sum_Nil_iff)
  from assms have "mset (map fst rs) = mset (map fst (ingredients_query st user))"
    by (metis mset_map)
  then show "distinct (map fst rs)"
    using group_sum_distinct [of "cart_rows st user"]
    by (metis ingredients_query_def mset_eq_imp_distinct_iff)
  show "set (map fst rs) = set (map fst (cart_rows st user))"
    using s group_sum_keys [of "cart_rows st user"] by (simp add: ingredients_query_def)
  show "list_all (\<lambda>g. snd g = total (fst g) (cart_rows st user)) rs"
    unfolding list_all_iff using s group_sum_entry [of _ "cart_rows st user"]
    by (simp add: ingredients_query_def)
qed

text \<open>
  Claim C3, as the code has it. Whatever order the database delivers the groups in:
  when the query joins no row (in particular when the user has no shopping cart row),
  the answer is the 400 "cart is empty" response, a client error; otherwise it is the
  CSV report whose data rows are one per distinct (name, unit) pair of the joined rows,
  each with the sum of the amounts of its pair. In a store that respects its keys and
  constraints the joined rows are exactly the \<open>RecipeIngredient\<close> rows of the recipes
  in the user's cart, each once.
\<close>

theorem shopping_list_groups:
  assumes "download_shopping_cart st user resp"
  shows "(cart_rows st user = [] \<longrightarrow>
            resp = Response 400 (Error_message Cart_is_empty) \<and> is_client_error resp)
     \<and> (cart_rows st user \<noteq> [] \<longrightarrow>
           (\<exists>rs. resp = HttpResponse
                   ([Header_ingredient, Header_amount, Header_unit] # map report_row rs)
              \<and> distinct (map fst rs)
              \<and> set (map fst rs) = set (map fst (cart_rows st user))
              \<and> list_all (\<lambda>g. snd g = total (fst g) (cart_rows st user)) rs))
     \<and> (\<not> list_ex (\<lambda>c. cart_user c = user) (shopping_cart st) \<longrightarrow> cart_rows st user = [])
     \<and> (integrity st \<longrightarrow> cart_rows st user = rows_of_cart st user)"
proof -
  from assms obtain rs where rs: "mset rs = mset (ingredients_query st user)"
    and resp: "resp = shopping_list rs"
    by (cases rule: download_shopping_cart.cases) auto
  note q = queryset_facts [OF rs]
  have a: "cart_rows st user = [] \<longrightarrow>
            resp = Response 400 (Error_message Cart_is_empty) \<and> is_client_error resp"
    using q(1) resp by (simp add: shopping_list_def is_client_error_def)
  have b: "cart_rows st user \<noteq> [] \<longrightarrow>
           (\<exists>rs. resp = HttpResponse
                   ([Header_ingredient, Header_amount, Header_unit] # map report_row rs)
              \<and> distinct (map fst rs)
              \<and> set (map fst rs) = set (map fst (cart_rows st user))
              \<and> list_all (\<lambda>g. snd g = total (fst g) (cart_rows st user)) rs)"
  proof
    assume "cart_rows st user \<noteq> []"
    with q(1) have "rs \<noteq> []" by simp
    with resp have "resp = HttpResponse
        ([Header_ingredient, Header_amount, Header_unit] # map report_row rs)"
      by (simp add: shopping_list_def)
    with q(2,3,4) show "\<exists>rs. resp = HttpResponse
                   ([Header_ingredient, Header_amount, Header_unit] # map report_row rs)
              \<and> distinct (map fst rs)
              \<and> set (map fst rs) = set (map fst (cart_rows st user))
              \<and> list_all (\<lambda>g. snd g = total (fst g) (cart_rows st user)) rs"
      by blast
  qed
  have c: "\<not> list_ex (\<lambda>c. cart_user c = user) (shopping_cart st) \<longrightarrow> cart_rows st user = []"
    by (simp add: cart_rows_empty_cart)
  have d: "integrity st \<longrightarrow> cart_rows st user = rows_of_cart st user"
    by (simp add: cart_rows_integrity)
  from a b c d show ?thesis by blast
qed

lemma example_cart_rows:
  "cart_rows example_store 1
     = [((''flour'', ''g''), 200), ((''egg'', ''pcs''), 2),
        ((''flour'', ''g''), 300), ((''sugar'', ''g''), 50)]"
  by (simp add: cart_rows_def example_store_def example_recipe_def has_pk_def)

lemma example_query:
  "ingredients_query example_store 1
     = [((''flour'', ''g''), 500), ((''egg'', ''pcs''), 2), ((''sugar'', ''g''), 50)]"
  unfolding ingredients_query_def example_cart_rows group_sum_def by simp

lemma example_integrity: "integrity example_store"
  by (simp add: integrity_def example_store_def example_recipe_def has_pk_def)

lemma example_report:
  "download_shopping_cart example_store 1
     (HttpResponse
        [[Header_ingredient, Header_amount, Header_unit],
         [Text ''flour'', Number 500, Text ''g''],
         [Text ''egg'', Number 2, Text ''pcs''],
         [Text ''sugar'', Number 50, Text ''g'']])"
proof -
  have "download_shopping_cart example_store 1
      (shopping_list [((''flour'', ''g''), 500), ((''egg'', ''pcs''), 2), ((''sugar'', ''g''), 50)])"
    by (rule download_shopping_cart.delivered) (unfold example_query, simp)
  then show ?thesis by (simp add: shopping_list_def report_row_def)
qed

lemma example_report_other_order:
  "download_shopping_cart example_store 1
     (HttpResponse
        [[Header_ingredient, Header_amount, Header_unit],
         [Text ''egg'', Number 2, Text ''pcs''],
         [Text ''flour'', Number 500, Text ''g''],
         [Text ''sugar'', Number 50, Text ''g'']])"
proof -
  have "download_shopping_cart example_store 1
      (shopping_list [((''egg'', ''pcs''), 2), ((''flour'', ''g''), 500), ((''sugar'', ''g''), 50)])"
    by (rule download_shopping_cart.delivered) (unfold example_query, simp)
  then show ?thesis by (simp add: shopping_list_def report_row_def)
qed

lemma bare_cart_rows: "cart_rows bare_cart_store 1 = []"
  by (simp add: cart_rows_def bare_cart_store_def)

lemma bare_cart_response:
  "download_shopping_cart bare_cart_store 1 (Response 400 (Error_message Cart_is_empty))"
proof -
  have "download_shopping_cart bare_cart_store 1 (shopping_list [])"
    by (rule download_shopping_cart.delivered)
      (unfold ingredients_query_def bare_cart_rows group_sum_def, simp)
  then show ?thesis by (simp add: shopping_list_def)
qed

lemma bare_cart_only_response:
  assumes "download_shopping_cart bare_cart_store 1 resp"
  shows "resp = Response 400 (Error_message Cart_is_empty)"
proof -
  from assms obtain rs where rs: "mset rs = mset (ingredients_query bare_cart_store 1)"
    and resp: "resp = shopping_list rs"
    by (cases rule: download_shopping_cart.cases) auto
  from queryset_facts(1) [OF rs] bare_cart_rows have "rs = []" by blast
  with resp show ?thesis by (simp add: shopping_list_def)
qed

lemma two_users_cart: "\<not> list_ex (\<lambda>c. cart_user c = 1) (shopping_cart two_users)"
  by (simp add: two_users_def empty_store_def)

lemma two_users_response:
  "download_shopping_cart two_users 1 (Response 400 (Error_message Cart_is_empty))"
proof -
  have "cart_rows two_users 1 = []" using two_users_cart by (rule cart_rows_empty_cart)
  then have "download_shopping_cart two_users 1 (shopping_list [])"
    by (intro download_shopping_cart.delivered) (simp add: ingredients_query_def group_sum_def)
  then show ?thesis by (simp add: shopping_list_def)
qed

theorem shopping_list_groups_witness:
  "download_shopping_cart example_store 1
     (HttpResponse
        [[Header_ingredient, Header_amount, Header_unit],
         [Text ''flour'', Number 500, Text ''g''],
         [Text ''egg'', Number 2, Text ''pcs''],
         [Text ''sugar'', Number 50, Text ''g'']])
   \<and> cart_rows example_store 1
       = [((''flour'', ''g''), 200), ((''egg'', ''pcs''), 2),
          ((''flour'', ''g''), 300), ((''sugar'', ''g''), 50)]
   \<and> integrity example_store
   \<and> rows_of_cart example_store 1 = cart_rows example_store 1
   \<and> download_shopping_cart two_users 1 (Response 400 (Error_message Cart_is_empty))
   \<and> \<not> list_ex (\<lambda>c. cart_user c = 1) (shopping_cart two_users)
   \<and> cart_rows two_users 1 = []"
proof -
  from shopping_list_groups [OF example_report] example_integrity
  have a: "rows_of_cart example_store 1 = cart_rows example_store 1" by simp
  from shopping_list_groups [OF two_users_response] two_users_cart
  have b: "cart_rows two_users 1 = []" by blast
  from a b example_report example_cart_rows example_integrity two_users_response two_users_cart
  show ?thesis by blast
qed

text \<open>
  Claim C3 as stated promises a report to every user with a non-empty cart. In the
  store whose \<open>RecipeIngredient\<close> rows are gone, user 1 has recipes in the cart, yet
  the query finds no row and the only answer is the 400 response.
\<close>

theorem empty_report_counterexample:
  "is_in_shopping_cart bare_cart_store 1 1
   \<and> download_shopping_cart bare_cart_store 1 (Response 400 (Error_message Cart_is_empty))
   \<and> \<not> (\<exists>rows. download_shopping_cart bare_cart_store 1 (HttpResponse rows))"
proof -
  have a: "is_in_shopping_cart bare_cart_store 1 1"
    by (simp add: is_in_shopping_cart_def bare_cart_store_def example_store_def)
  have "\<not> download_shopping_cart bare_cart_store 1 (HttpResponse rows)" for rows
    using bare_cart_only_response [of "HttpResponse rows"] by auto
  with a bare_cart_response show ?thesis by blast
qed

section \<open>The order of the report\<close>

lemma total_mset:
  "total k rows = sum_mset (image_mset snd (filter_mset (\<lambda>x. fst x = k) (mset rows)))"
  by (simp add: total_def sum_mset_sum_list [symmetric] del: sum_mset_sum_list)

lemma total_cong: "mset rows = mset rows' \<Longrightarrow> total k rows = total k rows'"
  by (simp add: total_mset)

lemma group_sum_set:
  "set (group_sum rows) = (\<lambda>k. (k, total k rows)) ` set (map fst rows)"
proof (intro set_eqI iffI)
  fix g assume g: "g \<in> set (group_sum rows)"
  then have "fst g \<in> set (map fst (group_sum rows))" by simp
  then have "fst g \<in> set (map fst rows)" by (simp only: group_sum_keys)
  moreover from g have "g = (fst g, total (fst g) rows)"
    using group_sum_entry [of g rows] by (simp add: prod_eq_iff)
  ultimately show "g \<in> (\<lambda>k. (k, total k rows)) ` set (map fst rows)" by (rule rev_image_eqI)
next
  fix g assume "g \<in> (\<lambda>k. (k, total k rows)) ` set (map fst rows)"
  then obtain k where k: "k \<in> set (map fst rows)" and g: "g = (k, total k rows)" by auto
  from k have "k \<in> set (map fst (group_sum rows))" by (simp only: group_sum_keys)
  then obtain h where h: "h \<in> set (group_sum rows)" "fst h = k" by auto
  with group_sum_entry [of h rows] have "h = g" by (simp add: g prod_eq_iff)
  with h show "g \<in> set (group_sum rows)" by simp
qed

lemma group_sum_mset_cong:
  assumes "mset rows = mset rows'"
  shows "mset (group_sum rows) = mset (group_sum rows')"
proof -
  from assms have "set (map fst rows) = set (map fst rows')"
    by (metis mset_eq_setD mset_map)
  moreover from assms have "total k rows = total k rows'" for k by (rule total_cong)
  ultimately have "set (group_sum rows) = set (group_sum rows')"
    by (simp add: group_sum_set)
  moreover have "distinct (group_sum rows)" "distinct (group_sum rows')"
    using group_sum_distinct distinct_map by blast+
  ultimately show ?thesis by (simp add: set_eq_iff_mset_eq_distinct)
qed

lemma mset_concat_map:
  "mset (concat (map f xs)) = sum_mset (image_mset (\<lambda>x. mset (f x)) (mset xs))"
  by (induction xs) simp_all

lemma mset_concat_map_cong:
  "mset xs = mset ys \<Longrightarrow> (\<And>x. mset (f x) = mset (g x)) \<Longrightarrow>
   mset (concat (map f xs)) = mset (concat (map g ys))"
  by (simp add: mset_concat_map)

lemma cart_rows_mset_cong:
  assumes "mset (recipe_ingredients st') = mset (recipe_ingredients st)"
    and "mset (recipes st') = mset (recipes st)"
    and "mset (shopping_cart st') = mset (shopping_cart st)"
    and "mset (ingredients st') = mset (ingredients st)"
  shows "mset (cart_rows st' user) = mset (cart_rows st user)"
proof -
  let ?I = "\<lambda>s (ri::recipe_ingredient).
      concat (map (\<lambda>i. if ingredient_pk i = ri_ingredient ri
                       then [((ingredient_name i, measurement_unit i), amount ri)] else [])
                (ingredients s))"
  let ?C = "\<lambda>s ri.
      concat (map (\<lambda>sc. if cart_recipe sc = ri_recipe ri \<and> cart_user sc = user
                        then ?I s ri else []) (shopping_cart s))"
  let ?R = "\<lambda>s ri.
      concat (map (\<lambda>r. if has_pk (ri_recipe ri) r then ?C s ri else []) (recipes s))"
  have i: "mset (?I st' ri) = mset (?I st ri)" for ri
    by (rule mset_concat_map_cong [OF assms(4)]) simp
  have c: "mset (?C st' ri) = mset (?C st ri)" for ri
    by (rule mset_concat_map_cong [OF assms(3)]) (simp add: i)
  have r: "mset (?R st' ri) = mset (?R st ri)" for ri
    by (rule mset_concat_map_cong [OF assms(2)]) (simp add: c)
  have "mset (concat (map (?R st') (recipe_ingredients st')))
      = mset (concat (map (?R st) (recipe_ingredients st)))"
    by (rule mset_concat_map_cong [OF assms(1)]) (rule r)
  then show ?thesis unfolding cart_rows_def .
qed

text \<open>
  Claim C4, as the code has it. For a fixed store, any two answers of the view to the
  same user have the same status and the same data rows up to their order, and the
  "cart is empty" answer is the only one when it is one; and the answers do not depend
  on the order in which the rows of the four tables were inserted. The order of the
  data rows themselves is not fixed by the code: the query has no ORDER BY.
\<close>

theorem report_rows_fixed_up_to_order:
  "(download_shopping_cart st user r1 \<and> download_shopping_cart st user r2 \<longrightarrow>
      status_code r1 = status_code r2 \<and> data_rows r1 = data_rows r2
      \<and> (status_code r1 = 400 \<longrightarrow> r1 = r2))
   \<and> (mset (recipe_ingredients st') = mset (recipe_ingredients st)
        \<and> mset (recipes st') = mset (recipes st)
        \<and> mset (shopping_cart st') = mset (shopping_cart st)
        \<and> mset (ingredients st') = mset (ingredients st) \<longrightarrow>
      download_shopping_cart st' user r1 = download_shopping_cart st user r1)"
proof (intro conjI impI)
  assume "download_shopping_cart st user r1 \<and> download_shopping_cart st user r2"
  then obtain rs1 rs2 where
    q: "mset rs1 = mset (ingredients_query st user)" "mset rs2 = mset (ingredients_query st user)"
    and r: "r1 = shopping_list rs1" "r2 = shopping_list rs2"
    by (auto elim!: download_shopping_cart.cases)
  from q have m: "mset rs1 = mset rs2" by simp
  then have e: "rs1 = [] \<longleftrightarrow> rs2 = []" by (metis mset_zero_iff)
  from m have d: "mset (map report_row rs1) = mset (map report_row rs2)" by (metis mset_map)
  show "status_code r1 = status_code r2" using e r by (simp add: shopping_list_def)
  show "data_rows r1 = data_rows r2" using e d r by (simp add: shopping_list_def)
  show "r1 = r2" if "status_code r1 = 400" using that e r
    by (auto simp: shopping_list_def split: if_splits)
next
  assume a: "mset (recipe_ingredients st') = mset (recipe_ingredients st)
        \<and> mset (recipes st') = mset (recipes st)
        \<and> mset (shopping_cart st') = mset (shopping_cart st)
        \<and> mset (ingredients st') = mset (ingredients st)"
  then have "mset (cart_rows st' user) = mset (cart_rows st user)"
    by (intro cart_rows_mset_cong) simp_all
  then have "mset (ingredients_query st' user) = mset (ingredients_query st user)"
    unfolding ingredients_query_def by (rule group_sum_mset_cong)
  then show "download_shopping_cart st' user r1 = download_shopping_cart st user r1"
    by (simp add: download_shopping_cart.simps)
qed

text \<open>
  Claim C4 as stated: for the example store both orders below are answers of the view
  to user 1, and they are different responses.
\<close>

theorem report_order_counterexample:
  "download_shopping_cart example_store 1
     (HttpResponse
        [[Header_ingredient, Header_amount, Header_unit],
         [Text ''flour'', Number 500, Text ''g''],
         [Text ''egg'', Number 2, Text ''pcs''],
         [Text ''sugar'', Number 50, Text ''g'']])
   \<and> download_shopping_cart example_store 1
     (HttpResponse
        [[Header_ingredient, Header_amount, Header_unit],
         [Text ''egg'', Number 2, Text ''pcs''],
         [Text ''flour'', Number 500, Text ''g''],
         [Text ''sugar'', Number 50, Text ''g'']])
   \<and> HttpResponse
        [[Header_ingredient, Header_amount, Header_unit],
         [Text ''flour'', Number 500, Text ''g''],
         [Text ''egg'', Number 2, Text ''pcs''],
         [Text ''sugar'', Number 50, Text ''g'']]
     \<noteq> HttpResponse
        [[Header_ingredient, Header_amount, Header_unit],
         [Text ''egg'', Number 2, Text ''pcs''],
         [Text ''flour'', Number 500, Text ''g''],
         [Text ''sugar'', Number 50, Text ''g'']]"
  using example_report example_report_other_order by simp

theorem report_rows_fixed_up_to_order_witness:
  "download_shopping_cart example_store 1
     (HttpResponse
        [[Header_ingredient, Header_amount, Header_unit],
         [Text ''flour'', Number 500, Text ''g''],
         [Text ''egg'', Number 2, Text ''pcs''],
         [Text ''sugar'', Number 50, Text ''g'']])
   \<and> download_shopping_cart example_store 1
     (HttpResponse
        [[Header_ingredient, Header_amount, Header_unit],
         [Text ''egg'', Number 2, Text ''pcs''],
         [Text ''flour'', Number 500, Text ''g''],
         [Text ''sugar'', Number 50, Text ''g'']])
   \<and> data_rows (HttpResponse
        [[Header_ingredient, Header_amount, Header_unit],
         [Text ''flour'', Number 500, Text ''g''],
         [Text ''egg'', Number 2, Text ''pcs''],
         [Text ''sugar'', Number 50, Text ''g'']])
     = data_rows (HttpResponse
        [[Header_ingredient, Header_amount, Header_unit],
         [Text ''egg'', Number 2, Text ''pcs''],
         [Text ''flour'', Number 500, Text ''g''],
         [Text ''sugar'', Number 50, Text ''g'']])
   \<and> mset (recipe_ingredients reordered_store) = mset (recipe_ingredients example_store)
   \<and> download_shopping_cart reordered_store 1
     (HttpResponse
        [[Header_ingredient, Header_amount, Header_unit],
         [Text ''flour'', Number 500, Text ''g''],
         [Text ''egg'', Number 2, Text ''pcs''],
         [Text ''sugar'', Number 50, Text ''g'']])"
proof -
  let ?r1 = "HttpResponse
        [[Header_ingredient, Header_amount, Header_unit],
         [Text ''flour'', Number 500, Text ''g''],
         [Text ''egg'', Number 2, Text ''pcs''],
         [Text ''sugar'', Number 50, Text ''g'']]"
  let ?r2 = "HttpResponse
        [[Header_ingredient, Header_amount, Header_unit],
         [Text ''egg'', Number 2, Text ''pcs''],
         [Text ''flour'', Number 500, Text ''g''],
         [Text ''sugar'', Number 50, Text ''g'']]"
  note inst = report_rows_fixed_up_to_order [of example_store 1 ?r1 ?r2 reordered_store]
  have p: "mset (recipe_ingredients reordered_store) = mset (recipe_ingredients example_store)"
    "mset (recipes reordered_store) = mset (recipes example_store)"
    "mset (shopping_cart reordered_store) = mset (shopping_cart example_store)"
    "mset (ingredients reordered_store) = mset (ingredients example_store)"
    by (simp_all add: reordered_store_def)
  from inst example_report example_report_other_order
  have d: "data_rows ?r1 = data_rows ?r2" by blast
  from inst p example_report
  have "download_shopping_cart reordered_store 1 ?r1" by blast
  with d p(1) example_report example_report_other_order show ?thesis by blast
qed

end
